theory Spec2Isabelle
  imports Complex_Main "HOL-Library.Log_Nat"
begin

section \<open>Scaled money (src/money.ts)\<close>

text \<open>
  All money is an integer count of \<open>10^-8\<close> units. A JavaScript \<open>number\<close> that holds
  an integral value is modelled by \<open>int\<close>; a \<open>number\<close> that holds a human decimal amount
  is modelled by \<open>real\<close> (the binary64 rounding of products is not modelled; no
  statement below depends on it). A \<open>BigInt\<close> is an \<open>int\<close>.
\<close>

definition SCALE :: int where
  "SCALE = 100000000"

text \<open>\<open>Math.round\<close>: the nearest integer, a tie going towards \<open>+\<infinity>\<close>.\<close>

definition Math_round :: "real \<Rightarrow> int" where
  "Math_round x = \<lfloor>x + 1 / 2\<rfloor>"

definition toScaled :: "real \<Rightarrow> int" where
  "toScaled v = Math_round (v * of_int SCALE)"

text \<open>
  \<open>parsePrice(s) = toScaled(parseFloat(s))\<close>: the argument here is the decimal value
  that \<open>parseFloat\<close> reads from the feed's string.
\<close>

definition parsePrice :: "real \<Rightarrow> int" where
  "parsePrice priceStr = toScaled priceStr"

text \<open>
  BigInt division \<open>/\<close> truncates towards zero, and the remainder \<open>%\<close> takes the sign
  of the dividend.
\<close>

definition bigint_div :: "int \<Rightarrow> int \<Rightarrow> int" where
  "bigint_div a b = sgn a * sgn b * (\<bar>a\<bar> div \<bar>b\<bar>)"

definition js_rem :: "int \<Rightarrow> int \<Rightarrow> int" where
  "js_rem a b = sgn a * (\<bar>a\<bar> mod \<bar>b\<bar>)"

text \<open>
  \<open>Number(bigint)\<close>: the nearest binary64 value, a tie going to the even significand.
  Every integer of magnitude at most \<open>2^53\<close> is a binary64 value; a larger one keeps
  its 53 leading bits. (A result of magnitude \<open>2^1024\<close> or more is \<open>Infinity\<close> in
  JavaScript; that needs operands far beyond the 64-bit columns of the store and is
  outside this model.)
\<close>

definition Number_of_BigInt :: "int \<Rightarrow> int" where
  "Number_of_BigInt x =
     (if \<bar>x\<bar> \<le> 2 ^ 53 then x
      else let sh = floorlog 2 (nat \<bar>x\<bar>) - 53;
               q = \<bar>x\<bar> div 2 ^ sh;
               r = \<bar>x\<bar> mod 2 ^ sh;
               q' = (if 2 ^ sh < 2 * r \<or> (2 * r = 2 ^ sh \<and> odd q) then q + 1 else q)
           in sgn x * q' * 2 ^ sh)"

definition scaledMultiply :: "int \<Rightarrow> int \<Rightarrow> int" where
  "scaledMultiply a b = Number_of_BigInt (bigint_div (a * b) SCALE)"

text \<open>\<open>scaledDivide\<close> throws \<open>Error("Division by zero")\<close> when \<open>b = 0\<close>.\<close>

definition scaledDivide :: "int \<Rightarrow> int \<Rightarrow> int option" where
  "scaledDivide a b =
     (if b = 0 then None else Some (Number_of_BigInt (bigint_div (a * SCALE) b)))"

subsection \<open>Rendering\<close>

text \<open>
  \<open>Number.prototype.toString\<close> on an integral value below \<open>10^21\<close> in magnitude: the
  decimal digits, with a leading \<open>-\<close> for a negative value.
\<close>

fun digits :: "nat \<Rightarrow> string" where
  "digits n =
     (if n < 10 then [''0123456789'' ! n]
      else digits (n div 10) @ [''0123456789'' ! (n mod 10)])"

declare digits.simps [simp del]

definition Number_toString :: "int \<Rightarrow> string" where
  "Number_toString i = (if i < 0 then CHR ''-'' # digits (nat (- i)) else digits (nat i))"

definition padStart :: "nat \<Rightarrow> char \<Rightarrow> string \<Rightarrow> string" where
  "padStart n c s = replicate (n - length s) c @ s"

text \<open>
  \<open>fromScaled\<close>: \<open>Math.floor(scaled / SCALE)\<close> is the floor of the quotient (HOL's
  \<open>div\<close> on \<open>int\<close>; for a safe integer the binary64 quotient has the same floor),
  \<open>Math.abs(scaled % SCALE)\<close> the magnitude of the truncating remainder.
\<close>

definition fromScaled :: "int \<Rightarrow> string" where
  "fromScaled scaled =
     (let integer = scaled div SCALE;
          fraction = \<bar>js_rem scaled SCALE\<bar>
      in Number_toString integer @ ''.'' @ padStart 8 (CHR ''0'') (Number_toString fraction))"

section \<open>Types, configuration and errors (src/types.ts, src/errors.ts)\<close>

datatype Side = BUY | SELL

datatype TradeType = MARKET | RFQ

datatype QuoteStatus = OPEN | EXECUTED | EXPIRED

datatype ErrorCode =
    VALIDATION_ERROR | UNAUTHORIZED | NOT_FOUND | INSUFFICIENT_BALANCE | QUOTE_EXPIRED
  | QUOTE_ALREADY_EXECUTED | PAIR_NOT_SUPPORTED | RATE_LIMITED | PRICE_FETCH_FAILED
  | INTERNAL_ERROR

text \<open>
  What a call can throw: an \<open>AppError\<close> (code and message), a plain \<open>Error\<close>, or the
  store's own exception when an insert violates a primary key.
\<close>

datatype error = AppError ErrorCode string | Error string | SqliteConstraint string

definition notFound :: "string \<Rightarrow> error" where
  "notFound resource = AppError NOT_FOUND (resource @ '' not found'')"

definition insufficientBalance :: "string \<Rightarrow> error" where
  "insufficientBalance currency =
     AppError INSUFFICIENT_BALANCE (''Insufficient '' @ currency @ '' balance'')"

definition quoteExpired :: error where
  "quoteExpired = AppError QUOTE_EXPIRED ''Quote has expired. Request a new quote.''"

definition quoteAlreadyExecuted :: error where
  "quoteAlreadyExecuted = AppError QUOTE_ALREADY_EXECUTED ''Quote has already been executed.''"

definition pairNotSupported :: "string \<Rightarrow> error" where
  "pairNotSupported pair =
     AppError PAIR_NOT_SUPPORTED (''Currency pair '' @ pair @ '' is not supported'')"

definition priceFetchFailed :: "string \<Rightarrow> error" where
  "priceFetchFailed msg = AppError PRICE_FETCH_FAILED msg"

record SupportedPair =
  symbol :: string
  base :: string
  quote :: string

definition SUPPORTED_PAIRS :: "SupportedPair list" where
  "SUPPORTED_PAIRS =
     [\<lparr>symbol = ''EURUSDT'', base = ''EUR'', quote = ''USDT''\<rparr>,
      \<lparr>symbol = ''BTCUSDT'', base = ''BTC'', quote = ''USDT''\<rparr>]"

definition QUOTE_TTL_MS :: int where
  "QUOTE_TTL_MS = 30000"

text \<open>
  The spread markup of 0.1 per cent. \<open>price.service.ts\<close> imports the constant; no
  function below reads it, as none in the source does.
\<close>

definition SPREAD_MARKUP :: real where
  "SPREAD_MARKUP = 1 / 1000"

text \<open>One venue's quote (the interface \<open>Quote\<close> of \<open>types.ts\<close>).\<close>

record VenueQuote =
  source :: string
  bid :: int
  ask :: int
  liquidity :: string

record QuoteResponse =
  qr_id :: string
  qr_baseCurrency :: string
  qr_quoteCurrency :: string
  qr_side :: Side
  qr_baseAmount :: string
  qr_quoteAmount :: string
  qr_price :: string
  qr_expiresAt :: int
  qr_status :: QuoteStatus
  qr_createdAt :: int

record TradeResponse =
  tr_id :: string
  tr_type :: TradeType
  tr_baseCurrency :: string
  tr_quoteCurrency :: string
  tr_side :: Side
  tr_baseAmount :: string
  tr_quoteAmount :: string
  tr_price :: string
  tr_executedAt :: int
  tr_createdAt :: int

section \<open>The store (src/db/schema.ts)\<close>

text \<open>
  The table \<open>balances\<close> has a unique index on (account, currency): it is a map from
  that pair to the amount (the row id and \<open>updated_at\<close> are left out; no operation
  reads them). The table \<open>quotes\<close> has the primary key \<open>id\<close>: a map from the id to the
  row. The table \<open>trades\<close> is the list of its rows in insertion order. The foreign keys
  to \<open>accounts\<close> are not modelled: every account id is taken to be a row of
  \<open>accounts\<close>.
\<close>

record QuoteRow =
  q_accountId :: string
  q_baseCurrency :: string
  q_quoteCurrency :: string
  q_side :: Side
  q_baseAmount :: int
  q_quoteAmount :: int
  q_price :: int
  q_expiresAt :: int
  q_status :: QuoteStatus
  q_createdAt :: int

record TradeRow =
  t_id :: string
  t_accountId :: string
  t_quoteId :: "string option"
  t_type :: TradeType
  t_baseCurrency :: string
  t_quoteCurrency :: string
  t_side :: Side
  t_baseAmount :: int
  t_quoteAmount :: int
  t_price :: int
  t_executedAt :: int
  t_createdAt :: int

record db =
  balances :: "string \<times> string \<rightharpoonup> int"
  quotes :: "string \<rightharpoonup> QuoteRow"
  trades :: "TradeRow list"

text \<open>
  \<open>sqlite.transaction(f)\<close>: run \<open>f\<close>; when it throws, every write it made is rolled
  back and the exception goes on to the caller.
\<close>

definition transaction :: "db \<Rightarrow> (db \<Rightarrow> db \<times> (error + 'a)) \<Rightarrow> db \<times> (error + 'a)" where
  "transaction s f =
     (case f s of
        (s', Inl e) \<Rightarrow> (s, Inl e)
      | (s', Inr v) \<Rightarrow> (s', Inr v))"

section \<open>Balance service (balance.service.ts)\<close>

definition getBalance :: "db \<Rightarrow> string \<Rightarrow> string \<Rightarrow> int" where
  "getBalance s accountId currency =
     (case balances s (accountId, currency) of None \<Rightarrow> 0 | Some amount \<Rightarrow> amount)"

text \<open>
  The statement of \<open>debit\<close>:
  \<^verbatim>\<open>UPDATE balances SET amount = amount - ? WHERE account_id = ? AND currency = ? AND amount >= ?\<close>.
  It returns the store after the statement and the number of rows changed.
\<close>

definition debit_update :: "db \<Rightarrow> string \<Rightarrow> string \<Rightarrow> int \<Rightarrow> db \<times> nat" where
  "debit_update s accountId currency amount =
     (case balances s (accountId, currency) of
        None \<Rightarrow> (s, 0)
      | Some current \<Rightarrow>
          if amount \<le> current
          then (s\<lparr>balances := (balances s)((accountId, currency) \<mapsto> current - amount)\<rparr>, 1)
          else (s, 0))"

definition debit :: "db \<Rightarrow> string \<Rightarrow> string \<Rightarrow> int \<Rightarrow> db \<times> (error + unit)" where
  "debit s accountId currency amount =
     (let (s', changes) = debit_update s accountId currency amount
      in if changes = 0 then (s', Inl (insufficientBalance currency)) else (s', Inr ()))"

text \<open>\<open>credit\<close>: insert the row, or add to the amount when the row exists.\<close>

definition credit :: "db \<Rightarrow> string \<Rightarrow> string \<Rightarrow> int \<Rightarrow> db" where
  "credit s accountId currency amount =
     (case balances s (accountId, currency) of
        None \<Rightarrow> s\<lparr>balances := (balances s)((accountId, currency) \<mapsto> amount)\<rparr>
      | Some current \<Rightarrow>
          s\<lparr>balances := (balances s)((accountId, currency) \<mapsto> current + amount)\<rparr>)"

section \<open>Price source (price.service.ts, sor.service.ts)\<close>

text \<open>
  The feed stands for \<open>fetchBookTicker\<close> and \<open>fetchTickerPrice\<close> (cache and HTTP call):
  for a symbol, either the HTTP status of a failed request or the decimal values of the
  strings in the response.
\<close>

record Feed =
  bookTicker :: "string \<Rightarrow> nat + (real \<times> real)"
  tickerPrice :: "string \<Rightarrow> nat + real"

definition fetchBookTicker :: "Feed \<Rightarrow> string \<Rightarrow> error + (real \<times> real)" where
  "fetchBookTicker feed sy =
     (case bookTicker feed sy of
        Inl status \<Rightarrow>
          Inl (priceFetchFailed (''Binance bookTicker failed for '' @ sy @ '': '' @ digits status))
      | Inr data \<Rightarrow> Inr data)"

definition fetchTickerPrice :: "Feed \<Rightarrow> string \<Rightarrow> error + real" where
  "fetchTickerPrice feed sy =
     (case tickerPrice feed sy of
        Inl status \<Rightarrow>
          Inl (priceFetchFailed (''Binance ticker/price failed for '' @ sy @ '': '' @ digits status))
      | Inr data \<Rightarrow> Inr data)"

text \<open>\<open>toUpperCase\<close> on ASCII letters, and the removal of \<open>_\<close>, \<open>/\<close> and \<open>-\<close>.\<close>

definition toUpperCase_char :: "char \<Rightarrow> char" where
  "toUpperCase_char c =
     (case map_of (zip ''abcdefghijklmnopqrstuvwxyz'' ''ABCDEFGHIJKLMNOPQRSTUVWXYZ'') c of
        None \<Rightarrow> c
      | Some u \<Rightarrow> u)"

definition toUpperCase :: "string \<Rightarrow> string" where
  "toUpperCase str = map toUpperCase_char str"

definition findPair :: "string \<Rightarrow> SupportedPair option" where
  "findPair pairStr =
     (let normalized = filter (\<lambda>c. c \<notin> set ''_/-'') (toUpperCase pairStr)
      in find (\<lambda>p. symbol p = normalized \<or> base p @ quote p = normalized
                    \<or> quote p @ base p = normalized) SUPPORTED_PAIRS)"

text \<open>
  The three venues of \<open>sor.service.ts\<close>. The factors \<open>0.9999\<close>, \<open>1.0001\<close>, \<open>0.9998\<close> and
  \<open>1.0002\<close> are taken as exact decimals.
\<close>

definition fetchBinance :: "int \<Rightarrow> int \<Rightarrow> VenueQuote" where
  "fetchBinance binanceBid binanceAsk =
     \<lparr>source = ''Binance'', bid = binanceBid, ask = binanceAsk, liquidity = ''tier1''\<rparr>"

definition fetchMassiveFX :: "int \<Rightarrow> int \<Rightarrow> VenueQuote" where
  "fetchMassiveFX binanceBid binanceAsk =
     \<lparr>source = ''MassiveFX'',
      bid = Math_round (of_int binanceBid * (9999 / 10000)),
      ask = Math_round (of_int binanceAsk * (10001 / 10000)),
      liquidity = ''tier2''\<rparr>"

definition fetchCoinGecko :: "int \<Rightarrow> int \<Rightarrow> VenueQuote" where
  "fetchCoinGecko binanceBid binanceAsk =
     \<lparr>source = ''CoinGecko'',
      bid = Math_round (of_int binanceBid * (9998 / 10000)),
      ask = Math_round (of_int binanceAsk * (10002 / 10000)),
      liquidity = ''tier3''\<rparr>"

record BestQuote =
  bq_price :: int
  bq_bidPrice :: int
  bq_askPrice :: int
  bq_source :: string
  bq_allQuotes :: "VenueQuote list"

text \<open>
  \<open>getBestQuote\<close>: \<open>Array.prototype.sort\<close> is stable; the comparator is \<open>a.ask - b.ask\<close>
  for BUY (ascending ask) and \<open>b.bid - a.bid\<close> for SELL (descending bid). The sort is in
  place, so \<open>allQuotes\<close> is the sorted array.
\<close>

definition getBestQuote :: "int \<Rightarrow> int \<Rightarrow> Side \<Rightarrow> error + BestQuote" where
  "getBestQuote binanceBid binanceAsk side =
     (let venues = [fetchBinance binanceBid binanceAsk,
                    fetchMassiveFX binanceBid binanceAsk,
                    fetchCoinGecko binanceBid binanceAsk]
      in if length venues = 0 then Inl (Error ''All pricing sources failed'')
         else
           let sorted = (if side = BUY then sort_key ask venues
                         else sort_key (\<lambda>q. - bid q) venues)
           in case sorted of
                [] \<Rightarrow> Inl (Error ''All pricing sources failed'')
              | best # _ \<Rightarrow>
                  Inr \<lparr>bq_price = (if side = BUY then ask best else bid best),
                       bq_bidPrice = bid best,
                       bq_askPrice = ask best,
                       bq_source = source best,
                       bq_allQuotes = sorted\<rparr>)"

definition getExecutionPrice :: "Feed \<Rightarrow> string \<Rightarrow> string \<Rightarrow> Side \<Rightarrow> error + (int \<times> int \<times> int)" where
  "getExecutionPrice feed baseCurrency quoteCurrency side =
     (case findPair (baseCurrency @ quoteCurrency) of
        None \<Rightarrow> Inl (pairNotSupported (baseCurrency @ ''_'' @ quoteCurrency))
      | Some pair \<Rightarrow>
          (case fetchBookTicker feed (symbol pair) of
             Inl e \<Rightarrow> Inl e
           | Inr (bidPrice, askPrice) \<Rightarrow>
               (case getBestQuote (parsePrice bidPrice) (parsePrice askPrice) side of
                  Inl e \<Rightarrow> Inl e
                | Inr best \<Rightarrow> Inr (bq_price best, bq_bidPrice best, bq_askPrice best))))"

definition getMarketPrice :: "Feed \<Rightarrow> string \<Rightarrow> string \<Rightarrow> error + int" where
  "getMarketPrice feed baseCurrency quoteCurrency =
     (case findPair (baseCurrency @ quoteCurrency) of
        None \<Rightarrow> Inl (pairNotSupported (baseCurrency @ ''_'' @ quoteCurrency))
      | Some pair \<Rightarrow>
          (case fetchTickerPrice feed (symbol pair) of
             Inl e \<Rightarrow> Inl e
           | Inr price \<Rightarrow> Inr (parsePrice price)))"

section \<open>Quote service (quote.service.ts)\<close>

definition validatePair :: "string \<Rightarrow> string \<Rightarrow> error + unit" where
  "validatePair baseCurrency quoteCurrency =
     (let found = list_ex (\<lambda>p. (base p = baseCurrency \<and> quote p = quoteCurrency)
                              \<or> (quote p = baseCurrency \<and> base p = quoteCurrency))
                    SUPPORTED_PAIRS
      in if \<not> found then Inl (pairNotSupported (baseCurrency @ ''_'' @ quoteCurrency))
         else Inr ())"

text \<open>
  \<open>createQuote\<close>. The clock reading \<open>now\<close> and the \<open>id\<close> drawn by
  \<open>crypto.randomUUID()\<close> (here \<open>quoteId\<close>) are arguments. The insert fails on an id that is already a
  primary key of \<open>quotes\<close>.
\<close>

definition createQuote ::
  "db \<Rightarrow> Feed \<Rightarrow> string \<Rightarrow> string \<Rightarrow> string \<Rightarrow> Side \<Rightarrow> real \<Rightarrow> int \<Rightarrow> string
     \<Rightarrow> db \<times> (error + QuoteResponse)" where
  "createQuote s feed accountId baseCurrency quoteCurrency side amount now quoteId =
     (case validatePair baseCurrency quoteCurrency of
        Inl e \<Rightarrow> (s, Inl e)
      | Inr _ \<Rightarrow>
          (case getExecutionPrice feed baseCurrency quoteCurrency side of
             Inl e \<Rightarrow> (s, Inl e)
           | Inr (price, _, _) \<Rightarrow>
               let baseAmount = toScaled amount;
                   quoteAmount = scaledMultiply baseAmount price
               in if quotes s quoteId \<noteq> None
                  then (s, Inl (SqliteConstraint ''UNIQUE constraint failed: quotes.id''))
                  else
                    (s\<lparr>quotes := (quotes s)(quoteId \<mapsto>
                         \<lparr>q_accountId = accountId,
                          q_baseCurrency = baseCurrency,
                          q_quoteCurrency = quoteCurrency,
                          q_side = side,
                          q_baseAmount = baseAmount,
                          q_quoteAmount = quoteAmount,
                          q_price = price,
                          q_expiresAt = now + QUOTE_TTL_MS,
                          q_status = OPEN,
                          q_createdAt = now\<rparr>)\<rparr>,
                     Inr \<lparr>qr_id = quoteId,
                          qr_baseCurrency = baseCurrency,
                          qr_quoteCurrency = quoteCurrency,
                          qr_side = side,
                          qr_baseAmount = fromScaled baseAmount,
                          qr_quoteAmount = fromScaled quoteAmount,
                          qr_price = fromScaled price,
                          qr_expiresAt = now + QUOTE_TTL_MS,
                          qr_status = OPEN,
                          qr_createdAt = now\<rparr>)))"

text \<open>
  \<^verbatim>\<open>UPDATE quotes SET status = ? WHERE id = ?\<close>: the statement has no condition on
  the current status.
\<close>

definition update_quote_status :: "db \<Rightarrow> string \<Rightarrow> QuoteStatus \<Rightarrow> db" where
  "update_quote_status s quoteId st =
     (case quotes s quoteId of
        None \<Rightarrow> s
      | Some row \<Rightarrow> s\<lparr>quotes := (quotes s)(quoteId \<mapsto> row\<lparr>q_status := st\<rparr>)\<rparr>)"

text \<open>
  \<open>getQuote\<close> in its two parts. The first is the awaited read of the quote row. The
  second is what runs after that \<open>await\<close>: the ownership test, the status test and the
  update to \<open>EXPIRED\<close>, all on the row that was read. Calls that overlap at the
  \<open>await\<close> resume on a row that may be stale; \<open>getQuote\<close> itself is the call that no
  other call overlaps.
\<close>

definition selectQuote :: "db \<Rightarrow> string \<Rightarrow> QuoteRow option" where
  "selectQuote s quoteId = quotes s quoteId"

definition getQuote_resume ::
  "db \<Rightarrow> string \<Rightarrow> string \<Rightarrow> QuoteRow option \<Rightarrow> int \<Rightarrow> db \<times> (error + QuoteResponse)" where
  "getQuote_resume s accountId quoteId quoteRow now =
     (case quoteRow of
        None \<Rightarrow> (s, Inl (notFound ''Quote''))
      | Some row \<Rightarrow>
          if q_accountId row \<noteq> accountId then (s, Inl (notFound ''Quote''))
          else
            let (s', row') =
                  (if q_status row = OPEN \<and> q_expiresAt row < now
                   then (update_quote_status s quoteId EXPIRED, row\<lparr>q_status := EXPIRED\<rparr>)
                   else (s, row))
            in (s', Inr \<lparr>qr_id = quoteId,
                         qr_baseCurrency = q_baseCurrency row',
                         qr_quoteCurrency = q_quoteCurrency row',
                         qr_side = q_side row',
                         qr_baseAmount = fromScaled (q_baseAmount row'),
                         qr_quoteAmount = fromScaled (q_quoteAmount row'),
                         qr_price = fromScaled (q_price row'),
                         qr_expiresAt = q_expiresAt row',
                         qr_status = q_status row',
                         qr_createdAt = q_createdAt row'\<rparr>))"

definition getQuote :: "db \<Rightarrow> string \<Rightarrow> string \<Rightarrow> int \<Rightarrow> db \<times> (error + QuoteResponse)" where
  "getQuote s accountId quoteId now =
     getQuote_resume s accountId quoteId (selectQuote s quoteId) now"

definition markQuoteExecuted :: "db \<Rightarrow> string \<Rightarrow> db" where
  "markQuoteExecuted s quoteId = update_quote_status s quoteId EXECUTED"

section \<open>Trade service (trade.service.ts)\<close>

text \<open>
  The body of \<open>executeTradeTx\<close>. \<open>if (quoteId)\<close> is JavaScript truthiness: \<open>null\<close> and
  the empty string skip the update. The insert into \<open>trades\<close> fails on an id that is
  already a primary key.
\<close>

definition executeTradeTx_body ::
  "string \<Rightarrow> string \<Rightarrow> string \<Rightarrow> Side \<Rightarrow> int \<Rightarrow> int \<Rightarrow> int \<Rightarrow> TradeType \<Rightarrow> string option
     \<Rightarrow> string \<Rightarrow> int \<Rightarrow> db \<Rightarrow> db \<times> (error + unit)" where
  "executeTradeTx_body accountId baseCurrency quoteCurrency side baseAmount quoteAmount price
       type quoteId tradeId now s =
     (let debitCurrency = (if side = BUY then quoteCurrency else baseCurrency);
          debitAmount = (if side = BUY then quoteAmount else baseAmount);
          creditCurrency = (if side = BUY then baseCurrency else quoteCurrency);
          creditAmount = (if side = BUY then baseAmount else quoteAmount)
      in case debit s accountId debitCurrency debitAmount of
           (s1, Inl e) \<Rightarrow> (s1, Inl e)
         | (s1, Inr _) \<Rightarrow>
             let s2 = credit s1 accountId creditCurrency creditAmount;
                 s3 = (case quoteId of
                         None \<Rightarrow> s2
                       | Some qid \<Rightarrow> if qid \<noteq> [] then update_quote_status s2 qid EXECUTED else s2)
             in if tradeId \<in> t_id ` set (trades s3)
                then (s3, Inl (SqliteConstraint ''UNIQUE constraint failed: trades.id''))
                else
                  (s3\<lparr>trades := trades s3 @
                        [\<lparr>t_id = tradeId,
                          t_accountId = accountId,
                          t_quoteId = quoteId,
                          t_type = type,
                          t_baseCurrency = baseCurrency,
                          t_quoteCurrency = quoteCurrency,
                          t_side = side,
                          t_baseAmount = baseAmount,
                          t_quoteAmount = quoteAmount,
                          t_price = price,
                          t_executedAt = now,
                          t_createdAt = now\<rparr>]\<rparr>,
                   Inr ()))"

definition executeTradeTx ::
  "db \<Rightarrow> string \<Rightarrow> string \<Rightarrow> string \<Rightarrow> Side \<Rightarrow> int \<Rightarrow> int \<Rightarrow> int \<Rightarrow> TradeType \<Rightarrow> string option
     \<Rightarrow> string \<Rightarrow> int \<Rightarrow> db \<times> (error + unit)" where
  "executeTradeTx s accountId baseCurrency quoteCurrency side baseAmount quoteAmount price
       type quoteId tradeId now =
     transaction s
       (executeTradeTx_body accountId baseCurrency quoteCurrency side baseAmount quoteAmount
          price type quoteId tradeId now)"

text \<open>
  \<open>executeTrade\<close>: the quote amount is computed here, from the base amount and the
  price it is given. \<open>now\<close> and \<open>tradeId\<close> are the readings of \<open>Date.now()\<close> and
  \<open>crypto.randomUUID()\<close>.
\<close>

definition executeTrade ::
  "db \<Rightarrow> string \<Rightarrow> string \<Rightarrow> string \<Rightarrow> Side \<Rightarrow> int \<Rightarrow> int \<Rightarrow> TradeType \<Rightarrow> string option
     \<Rightarrow> int \<Rightarrow> string \<Rightarrow> db \<times> (error + TradeResponse)" where
  "executeTrade s accountId baseCurrency quoteCurrency side baseAmount price type quoteId
       now tradeId =
     (let quoteAmount = scaledMultiply baseAmount price
      in case executeTradeTx s accountId baseCurrency quoteCurrency side baseAmount quoteAmount
                price type quoteId tradeId now of
           (s', Inl e) \<Rightarrow> (s', Inl e)
         | (s', Inr _) \<Rightarrow>
             (s', Inr \<lparr>tr_id = tradeId,
                       tr_type = type,
                       tr_baseCurrency = baseCurrency,
                       tr_quoteCurrency = quoteCurrency,
                       tr_side = side,
                       tr_baseAmount = fromScaled baseAmount,
                       tr_quoteAmount = fromScaled quoteAmount,
                       tr_price = fromScaled price,
                       tr_executedAt = now,
                       tr_createdAt = now\<rparr>))"

text \<open>
  \<open>executeRfqTrade\<close> in its two parts. The first is the awaited read of the quote row
  (\<open>selectQuote\<close>). The second is everything after the \<open>await\<close>: it runs without
  another suspension point and tests the row that was read, while its writes go to the
  store as it is then. \<open>nowCheck\<close> is the clock reading of the expiry check, \<open>now\<close> the
  later one of \<open>executeTrade\<close>. \<open>executeRfqTrade\<close> itself is the call that no other call
  overlaps: it resumes on the store it read from. Overlapping calls resume on a later
  store with the row they read earlier.
\<close>

definition executeRfqTrade_resume ::
  "db \<Rightarrow> string \<Rightarrow> string \<Rightarrow> QuoteRow option \<Rightarrow> int \<Rightarrow> int \<Rightarrow> string
     \<Rightarrow> db \<times> (error + TradeResponse)" where
  "executeRfqTrade_resume s accountId quoteId quoteRow nowCheck now tradeId =
     (case quoteRow of
        None \<Rightarrow> (s, Inl (notFound ''Quote''))
      | Some row \<Rightarrow>
          if q_accountId row \<noteq> accountId then (s, Inl (notFound ''Quote''))
          else if q_status row = EXECUTED then (s, Inl quoteAlreadyExecuted)
          else if q_status row = EXPIRED \<or> q_expiresAt row < nowCheck
          then ((if q_status row \<noteq> EXPIRED then update_quote_status s quoteId EXPIRED else s),
                Inl quoteExpired)
          else executeTrade s accountId (q_baseCurrency row) (q_quoteCurrency row) (q_side row)
                 (q_baseAmount row) (q_price row) RFQ (Some quoteId) now tradeId)"

definition executeRfqTrade ::
  "db \<Rightarrow> string \<Rightarrow> string \<Rightarrow> int \<Rightarrow> int \<Rightarrow> string \<Rightarrow> db \<times> (error + TradeResponse)" where
  "executeRfqTrade s accountId quoteId nowCheck now tradeId =
     executeRfqTrade_resume s accountId quoteId (selectQuote s quoteId) nowCheck now tradeId"

definition executeMarketTrade ::
  "db \<Rightarrow> Feed \<Rightarrow> string \<Rightarrow> string \<Rightarrow> string \<Rightarrow> Side \<Rightarrow> real \<Rightarrow> int \<Rightarrow> string
     \<Rightarrow> db \<times> (error + TradeResponse)" where
  "executeMarketTrade s feed accountId baseCurrency quoteCurrency side amount now tradeId =
     (let found = list_ex (\<lambda>p. (base p = baseCurrency \<and> quote p = quoteCurrency)
                              \<or> (quote p = baseCurrency \<and> base p = quoteCurrency))
                    SUPPORTED_PAIRS
      in if \<not> found then (s, Inl (pairNotSupported (baseCurrency @ ''_'' @ quoteCurrency)))
         else
           case getMarketPrice feed baseCurrency quoteCurrency of
             Inl e \<Rightarrow> (s, Inl e)
           | Inr price \<Rightarrow>
               let baseAmount = toScaled amount
               in executeTrade s accountId baseCurrency quoteCurrency side baseAmount price
                    MARKET None now tradeId)"

section \<open>Sequences of calls\<close>

text \<open>
  A public operation with everything it reads from outside: the feed, the clock
  readings and the fresh ids.
\<close>

datatype operation =
    CreateQuote Feed string string string Side real int string
  | GetQuote string string int
  | ExecuteRfqTrade string string int int string
  | ExecuteMarketTrade Feed string string string Side real int string

fun apply_operation :: "db \<Rightarrow> operation \<Rightarrow> db" where
  "apply_operation s (CreateQuote feed accountId b q side amount now quoteId) =
     fst (createQuote s feed accountId b q side amount now quoteId)"
| "apply_operation s (GetQuote accountId quoteId now) =
     fst (getQuote s accountId quoteId now)"
| "apply_operation s (ExecuteRfqTrade accountId quoteId nowCheck now tradeId) =
     fst (executeRfqTrade s accountId quoteId nowCheck now tradeId)"
| "apply_operation s (ExecuteMarketTrade feed accountId b q side amount now tradeId) =
     fst (executeMarketTrade s feed accountId b q side amount now tradeId)"

definition run_operations :: "db \<Rightarrow> operation list \<Rightarrow> db" where
  "run_operations s ops = foldl apply_operation s ops"

text \<open>
  \<open>executeRfqTrade\<close> called several times for one quote, each call running to its end
  before the next starts; a call has its own clock readings and trade id.
\<close>

fun executeRfqTrade_serial ::
  "db \<Rightarrow> string \<Rightarrow> string \<Rightarrow> (int \<times> int \<times> string) list
     \<Rightarrow> db \<times> (error + TradeResponse) list" where
  "executeRfqTrade_serial s accountId quoteId [] = (s, [])"
| "executeRfqTrade_serial s accountId quoteId ((nowCheck, now, tradeId) # calls) =
     (let (s1, r) = executeRfqTrade s accountId quoteId nowCheck now tradeId;
          (s2, rs) = executeRfqTrade_serial s1 accountId quoteId calls
      in (s2, r # rs))"

text \<open>
  Two calls that overlap at the \<open>await\<close> of the read: both read the quote row, then
  the first resumes, then the second resumes on the row it read before the first one
  wrote.
\<close>

definition executeRfqTrade_interleaved2 ::
  "db \<Rightarrow> string \<Rightarrow> string \<Rightarrow> (int \<times> int \<times> string) \<Rightarrow> (int \<times> int \<times> string)
     \<Rightarrow> db \<times> (error + TradeResponse) \<times> (error + TradeResponse)" where
  "executeRfqTrade_interleaved2 s accountId quoteId call1 call2 =
     (let row1 = selectQuote s quoteId;
          row2 = selectQuote s quoteId;
          (s1, r1) = executeRfqTrade_resume s accountId quoteId row1
                       (fst call1) (fst (snd call1)) (snd (snd call1));
          (s2, r2) = executeRfqTrade_resume s1 accountId quoteId row2
                       (fst call2) (fst (snd call2)) (snd (snd call2))
      in (s2, r1, r2))"

definition isSuccess :: "error + 'a \<Rightarrow> bool" where
  "isSuccess r = (case r of Inl _ \<Rightarrow> False | Inr _ \<Rightarrow> True)"

definition tradesOfQuote :: "db \<Rightarrow> string \<Rightarrow> TradeRow list" where
  "tradesOfQuote s quoteId = filter (\<lambda>t. t_quoteId t = Some quoteId) (trades s)"

text \<open>What a commit pays and what it receives.\<close>

definition debitLeg :: "string \<Rightarrow> string \<Rightarrow> Side \<Rightarrow> int \<Rightarrow> int \<Rightarrow> string \<times> int" where
  "debitLeg baseCurrency quoteCurrency side baseAmount quoteAmount =
     (if side = BUY then (quoteCurrency, quoteAmount) else (baseCurrency, baseAmount))"

definition creditLeg :: "string \<Rightarrow> string \<Rightarrow> Side \<Rightarrow> int \<Rightarrow> int \<Rightarrow> string \<times> int" where
  "creditLeg baseCurrency quoteCurrency side baseAmount quoteAmount =
     (if side = BUY then (baseCurrency, baseAmount) else (quoteCurrency, quoteAmount))"

text \<open>The allowed moves of a quote's status: none, or out of \<open>OPEN\<close>.\<close>

definition status_move_ok :: "QuoteStatus \<Rightarrow> QuoteStatus \<Rightarrow> bool" where
  "status_move_ok old new = (new = old \<or> (old = OPEN \<and> (new = EXECUTED \<or> new = EXPIRED)))"

section \<open>Example data\<close>

text \<open>The seeded account of \<open>seed.ts\<close>: 10000 USDT, 5000 EUR and 0.5 BTC.\<close>

definition seeded :: db where
  "seeded =
     \<lparr>balances = [(''demo-account'', ''USDT'') \<mapsto> 1000000000000,
                  (''demo-account'', ''EUR'') \<mapsto> 500000000000,
                  (''demo-account'', ''BTC'') \<mapsto> 50000000],
      quotes = Map.empty,
      trades = []\<rparr>"

text \<open>A feed with EURUSDT at bid 1.1790, ask 1.1792, last price 1.00000001.\<close>

definition demoFeed :: Feed where
  "demoFeed =
     \<lparr>bookTicker = (\<lambda>sy. if sy = ''EURUSDT'' then Inr (11790 / 10000, 11792 / 10000)
                           else Inl 400),
      tickerPrice = (\<lambda>sy. if sy = ''EURUSDT'' then Inr (100000001 / 100000000)
                            else Inl 400)\<rparr>"

text \<open>
  The quote that \<open>createQuote\<close> writes for a BUY of 100 EUR against USDT at clock 0,
  and the seeded store with that quote.
\<close>

definition demoQuote :: QuoteRow where
  "demoQuote =
     \<lparr>q_accountId = ''demo-account'', q_baseCurrency = ''EUR'', q_quoteCurrency = ''USDT'',
      q_side = BUY, q_baseAmount = 10000000000, q_quoteAmount = 11792000000,
      q_price = 117920000, q_expiresAt = 30000, q_status = OPEN, q_createdAt = 0\<rparr>"

definition quoted :: db where
  "quoted = seeded\<lparr>quotes := [''q-1'' \<mapsto> demoQuote]\<rparr>"


definition demoTrade :: "string \<Rightarrow> int \<Rightarrow> TradeRow" where
  "demoTrade tradeId now =
     \<lparr>t_id = tradeId, t_accountId = ''demo-account'', t_quoteId = Some ''q-1'', t_type = RFQ,
      t_baseCurrency = ''EUR'', t_quoteCurrency = ''USDT'', t_side = BUY,
      t_baseAmount = 10000000000, t_quoteAmount = 11792000000, t_price = 117920000,
      t_executedAt = now, t_createdAt = now\<rparr>"

text \<open>
  The store \<open>quoted\<close> after a first call has read the quote, resumed at clock 30000 (the
  last instant before expiry) and committed.
\<close>

definition executedByFirst :: db where
  "executedByFirst =
     fst (executeRfqTrade_resume quoted ''demo-account'' ''q-1'' (selectQuote quoted ''q-1'')
            30000 30000 ''t-1'')"

section \<open>Scaled money: results\<close>




lemma replicate_numeral: "replicate (numeral v) x = x # replicate (numeral v - 1) x"
  by (simp add: numeral_eq_Suc)

lemma fromScaled_examples:
  "fromScaled 100000000 = ''1.00000000''"
  "fromScaled 117920000 = ''1.17920000''"
  "fromScaled 50000000 = ''0.50000000''"
  "fromScaled 0 = ''0.00000000''"
  unfolding fromScaled_def Let_def
  by (simp_all add: SCALE_def js_rem_def Number_toString_def padStart_def digits.simps
      replicate_numeral)

text \<open>
  For a non-negative input the rendering is the integer part, a point, and the
  remainder padded with zeros to exactly eight digits.
\<close>

lemma length_digits: "n < 10 ^ Suc k \<Longrightarrow> length (digits n) \<le> Suc k"
proof (induction k arbitrary: n)
  case 0
  then show ?case by (simp add: digits.simps)
next
  case (Suc k)
  show ?case
  proof (cases "n < 10")
    case True
    then show ?thesis by (simp add: digits.simps)
  next
    case False
    from Suc.prems have "n div 10 < 10 ^ Suc k"
      by (simp add: less_mult_imp_div_less mult.commute)
    from Suc.IH [OF this] False show ?thesis
      by (subst digits.simps) simp
  qed
qed

lemma fromScaled_nonneg:
  assumes "0 \<le> s"
  shows "fromScaled s =
           digits (nat (s div SCALE)) @ ''.'' @
           replicate (8 - length (digits (nat (s mod SCALE)))) (CHR ''0'') @
           digits (nat (s mod SCALE))"
    and "length (padStart 8 (CHR ''0'') (digits (nat (s mod SCALE)))) = 8"
proof -
  have rem: "\<bar>js_rem s SCALE\<bar> = s mod SCALE"
    using assms by (cases "s = 0") (simp_all add: js_rem_def SCALE_def)
  have q: "0 \<le> s div SCALE"
    using assms by (simp add: SCALE_def pos_imp_zdiv_nonneg_iff)
  have m: "0 \<le> s mod SCALE" by (simp add: SCALE_def)
  show "fromScaled s =
           digits (nat (s div SCALE)) @ ''.'' @
           replicate (8 - length (digits (nat (s mod SCALE)))) (CHR ''0'') @
           digits (nat (s mod SCALE))"
    unfolding fromScaled_def Let_def rem
    using q m by (simp add: Number_toString_def padStart_def)
  have "nat (s mod SCALE) < 10 ^ Suc 7"
    by (simp add: SCALE_def nat_less_iff)
  then have "length (digits (nat (s mod SCALE))) \<le> 8"
    using length_digits [of "nat (s mod SCALE)" 7] by simp
  then show "length (padStart 8 (CHR ''0'') (digits (nat (s mod SCALE)))) = 8"
    by (simp add: padStart_def)
qed

text \<open>
  C5. The claim: for every scaled integer \<open>s\<close>, also a negative one, \<open>fromScaled s\<close>
  renders \<open>s / 10^8\<close> with eight fractional digits and the sign in front of the whole
  value, so that \<open>fromScaled(-150000000)\<close> is \<open>-1.50000000\<close>. The code takes the floor
  for the integer part and the magnitude of the truncating remainder for the fraction:
  at \<open>-150000000\<close> it renders \<open>-2.50000000\<close>, and at \<open>-50000000\<close> (the value \<open>-0.5\<close>)
  it renders \<open>-1.50000000\<close>.
\<close>

theorem fromScaled_negative_rendering:
  "fromScaled (- 150000000) = ''-2.50000000'' \<and> fromScaled (- 50000000) = ''-1.50000000''"
  unfolding fromScaled_def Let_def
  by (simp add: SCALE_def js_rem_def Number_toString_def padStart_def digits.simps)


text \<open>
  The conversion of the quotient back to a \<open>number\<close> loses the low bits of a quotient
  beyond \<open>2^53\<close>, also for non-negative operands: \<open>2^53 * 100000003 / 10^8\<close> has the
  floor \<open>9007199524956969\<close>, which is odd and larger than \<open>2^53\<close>.
\<close>

lemma scaledMultiply_rounds_large_quotient:
  "scaledMultiply (2 ^ 53) 100000003 = 9007199524956968 \<and>
   (2 ^ 53 * 100000003) div SCALE = 9007199524956969"
  unfolding scaledMultiply_def Number_of_BigInt_def Let_def
  by (simp add: bigint_div_def SCALE_def compute_floorlog)



section \<open>Balance service: results\<close>

lemma debit_fail_state: "debit s a c amount = (s', Inl e) \<Longrightarrow> s' = s \<and> e = insufficientBalance c"
  by (auto simp: debit_def debit_update_def split: option.splits if_splits)





section \<open>Trade service: a rejected quote\<close>


lemma transaction_fail: "transaction s f = (s', Inl e) \<Longrightarrow> s' = s"
  by (auto simp: transaction_def split: prod.splits sum.splits)

lemma transaction_ok: "transaction s f = (s', Inr v) \<Longrightarrow> f s = (s', Inr v)"
  by (auto simp: transaction_def split: prod.splits sum.splits)

lemma executeTradeTx_fail:
  "executeTradeTx s a b q side ba qa price ty qid tid now = (s', Inl e) \<Longrightarrow> s' = s"
  unfolding executeTradeTx_def by (rule transaction_fail)

lemma executeTrade_fail:
  "executeTrade s a b q side ba price ty qid now tid = (s', Inl e) \<Longrightarrow> s' = s"
  unfolding executeTrade_def Let_def
  by (auto split: prod.splits sum.splits dest: executeTradeTx_fail)

lemma update_quote_status_balances [simp]: "balances (update_quote_status s qid st) = balances s"
  by (simp add: update_quote_status_def split: option.splits)

lemma update_quote_status_trades [simp]: "trades (update_quote_status s qid st) = trades s"
  by (simp add: update_quote_status_def split: option.splits)

lemma update_quote_status_other:
  "q \<noteq> qid \<Longrightarrow> quotes (update_quote_status s qid st) q = quotes s q"
  by (simp add: update_quote_status_def split: option.splits)

lemma update_quote_status_same:
  "quotes (update_quote_status s qid st) qid = map_option (\<lambda>row. row\<lparr>q_status := st\<rparr>) (quotes s qid)"
  by (simp add: update_quote_status_def split: option.splits)

text \<open>
  A call that no other call overlaps: when it fails with \<open>NOT_FOUND\<close>,
  \<open>QUOTE_ALREADY_EXECUTED\<close> or \<open>QUOTE_EXPIRED\<close>, every balance and the table of trades
  are as before, every other quote is as before, and the quote itself is either as
  before or was \<open>OPEN\<close> and is now \<open>EXPIRED\<close> (on the expiry path only).
\<close>

theorem executeRfqTrade_rejection_leaves_ledger:
  assumes "executeRfqTrade s accountId quoteId nowCheck now tradeId = (s', Inl e)"
    and "e = notFound ''Quote'' \<or> e = quoteAlreadyExecuted \<or> e = quoteExpired"
  shows "balances s' = balances s \<and> trades s' = trades s \<and>
         (\<forall>q. q \<noteq> quoteId \<longrightarrow> quotes s' q = quotes s q) \<and>
         (quotes s' quoteId = quotes s quoteId \<or>
          (\<exists>row. quotes s quoteId = Some row \<and> q_status row = OPEN \<and>
                 e = quoteExpired \<and>
                 quotes s' quoteId = Some (row\<lparr>q_status := EXPIRED\<rparr>)))"
proof (cases "quotes s quoteId")
  case None
  with assms(1) show ?thesis
    by (simp add: executeRfqTrade_def executeRfqTrade_resume_def selectQuote_def)
next
  case (Some row)
  show ?thesis
  proof (cases "q_accountId row \<noteq> accountId \<or> q_status row = EXECUTED")
    case True
    with Some assms(1) show ?thesis
      by (auto simp: executeRfqTrade_def executeRfqTrade_resume_def selectQuote_def
          split: if_splits)
  next
    case live: False
    show ?thesis
    proof (cases "q_status row = EXPIRED \<or> q_expiresAt row < nowCheck")
      case True
      have "q_status row \<noteq> EXPIRED \<Longrightarrow> q_status row = OPEN"
        using live by (cases "q_status row") auto
      with True Some live assms(1) show ?thesis
        by (auto simp: executeRfqTrade_def executeRfqTrade_resume_def selectQuote_def
            update_quote_status_other update_quote_status_same split: if_splits)
    next
      case False
      with Some live assms(1) have
        "executeTrade s accountId (q_baseCurrency row) (q_quoteCurrency row) (q_side row)
           (q_baseAmount row) (q_price row) RFQ (Some quoteId) now tradeId = (s', Inl e)"
        by (auto simp: executeRfqTrade_def executeRfqTrade_resume_def selectQuote_def
            split: if_splits)
      then have "s' = s" by (rule executeTrade_fail)
      then show ?thesis by simp
    qed
  qed
qed

section \<open>Price source: results\<close>


lemma findPair_EURUSDT: "findPair ''EURUSDT'' = Some \<lparr>symbol = ''EURUSDT'', base = ''EUR'', quote = ''USDT''\<rparr>"
  unfolding findPair_def Let_def
  by (simp add: toUpperCase_def toUpperCase_char_def SUPPORTED_PAIRS_def)

lemma findPair_USDTEUR: "findPair ''USDTEUR'' = Some \<lparr>symbol = ''EURUSDT'', base = ''EUR'', quote = ''USDT''\<rparr>"
  unfolding findPair_def Let_def
  by (simp add: toUpperCase_def toUpperCase_char_def SUPPORTED_PAIRS_def)

lemma findPair_BTCUSDT: "findPair ''BTCUSDT'' = Some \<lparr>symbol = ''BTCUSDT'', base = ''BTC'', quote = ''USDT''\<rparr>"
  unfolding findPair_def Let_def
  by (simp add: toUpperCase_def toUpperCase_char_def SUPPORTED_PAIRS_def)

lemma findPair_USDTBTC: "findPair ''USDTBTC'' = Some \<lparr>symbol = ''BTCUSDT'', base = ''BTC'', quote = ''USDT''\<rparr>"
  unfolding findPair_def Let_def
  by (simp add: toUpperCase_def toUpperCase_char_def SUPPORTED_PAIRS_def)

lemma parsePrice_demo:
  "parsePrice (11790 / 10000) = 117900000" "parsePrice (11792 / 10000) = 117920000"
  "parsePrice (100000001 / 100000000) = 100000001"
  by (simp_all add: parsePrice_def toScaled_def Math_round_def SCALE_def)

lemma getBestQuote_demo_BUY:
  "getBestQuote 117900000 117920000 BUY =
     Inr \<lparr>bq_price = 117920000, bq_bidPrice = 117900000, bq_askPrice = 117920000,
          bq_source = ''Binance'',
          bq_allQuotes = [fetchBinance 117900000 117920000, fetchMassiveFX 117900000 117920000,
                          fetchCoinGecko 117900000 117920000]\<rparr>"
  unfolding getBestQuote_def Let_def
  by (simp add: fetchBinance_def fetchMassiveFX_def fetchCoinGecko_def Math_round_def)

lemma getBestQuote_demo_SELL:
  "getBestQuote 117900000 117920000 SELL =
     Inr \<lparr>bq_price = 117900000, bq_bidPrice = 117900000, bq_askPrice = 117920000,
          bq_source = ''Binance'',
          bq_allQuotes = [fetchBinance 117900000 117920000, fetchMassiveFX 117900000 117920000,
                          fetchCoinGecko 117900000 117920000]\<rparr>"
  unfolding getBestQuote_def Let_def
  by (simp add: fetchBinance_def fetchMassiveFX_def fetchCoinGecko_def Math_round_def)


text \<open>
  For a non-negative book, the best of the three venues is always the first one,
  unchanged: the other two asks are rounded up from the same ask and the other two bids
  rounded down from the same bid, and the sort is stable.
\<close>


lemma Math_round_up_ge: "0 \<le> a \<Longrightarrow> 1 \<le> f \<Longrightarrow> a \<le> Math_round (of_int a * f)"
proof -
  assume a: "0 \<le> a" and f: "1 \<le> f"
  have "of_int a * 1 \<le> of_int a * f"
    using a f by (intro mult_left_mono) auto
  then have "of_int a \<le> of_int a * f + 1 / 2" by simp
  then show ?thesis
    unfolding Math_round_def by (simp add: le_floor_iff)
qed

lemma Math_round_down_le: "0 \<le> a \<Longrightarrow> 0 \<le> f \<Longrightarrow> f \<le> 1 \<Longrightarrow> Math_round (of_int a * f) \<le> a"
proof -
  assume a: "0 \<le> a" and f0: "0 \<le> f" and f: "f \<le> 1"
  have "of_int a * f \<le> of_int a * 1"
    using a f by (intro mult_left_mono) auto
  then have "of_int a * f + 1 / 2 < of_int a + 1" by simp
  then have "of_int a * f + 1 / 2 < of_int (a + 1)" by simp
  then have "\<lfloor>of_int a * f + 1 / 2\<rfloor> < a + 1"
    by (simp only: floor_less_iff)
  then show ?thesis
    unfolding Math_round_def by simp
qed

lemma getBestQuote_BUY_price:
  assumes "0 \<le> binanceAsk"
  shows "\<exists>best. getBestQuote binanceBid binanceAsk BUY = Inr best \<and> bq_price best = binanceAsk
           \<and> bq_source best = ''Binance''"
proof -
  have m: "binanceAsk \<le> Math_round (of_int binanceAsk * (10001 / 10000))"
    using assms by (intro Math_round_up_ge) auto
  have c: "binanceAsk \<le> Math_round (of_int binanceAsk * (10002 / 10000))"
    using assms by (intro Math_round_up_ge) auto
  show ?thesis
    unfolding getBestQuote_def Let_def
    using m c by (auto simp: fetchBinance_def fetchMassiveFX_def fetchCoinGecko_def)
qed

lemma getBestQuote_SELL_price:
  assumes "0 \<le> binanceBid"
  shows "\<exists>best. getBestQuote binanceBid binanceAsk SELL = Inr best \<and> bq_price best = binanceBid
           \<and> bq_source best = ''Binance''"
proof -
  have m: "Math_round (of_int binanceBid * (9999 / 10000)) \<le> binanceBid"
    using assms by (intro Math_round_down_le) auto
  have c: "Math_round (of_int binanceBid * (9998 / 10000)) \<le> binanceBid"
    using assms by (intro Math_round_down_le) auto
  show ?thesis
    unfolding getBestQuote_def Let_def
    using m c by (auto simp: fetchBinance_def fetchMassiveFX_def fetchCoinGecko_def)
qed

lemma getExecutionPrice_demo:
  "getExecutionPrice demoFeed ''EUR'' ''USDT'' BUY = Inr (117920000, 117900000, 117920000)"
  "getExecutionPrice demoFeed ''EUR'' ''USDT'' SELL = Inr (117900000, 117900000, 117920000)"
  by (simp_all add: getExecutionPrice_def findPair_EURUSDT fetchBookTicker_def demoFeed_def
      parsePrice_def toScaled_def Math_round_def SCALE_def
      getBestQuote_demo_BUY getBestQuote_demo_SELL)

text \<open>
  C4. The claim: the execution price of a quote is the ask plus the spread markup for
  BUY and the bid minus the markup for SELL. \<open>getExecutionPrice\<close> returns the price
  that \<open>getBestQuote\<close> picks, and nothing reads \<open>SPREAD_MARKUP\<close>: with the book at
  bid 1.1790 and ask 1.1792, a BUY is priced at the ask itself and a SELL at the bid
  itself.
\<close>

theorem getExecutionPrice_applies_no_markup:
  "getExecutionPrice demoFeed ''EUR'' ''USDT'' BUY = Inr (117920000, 117900000, 117920000) \<and>
   getExecutionPrice demoFeed ''EUR'' ''USDT'' SELL = Inr (117900000, 117900000, 117920000) \<and>
   parsePrice (11792 / 10000) = 117920000 \<and> parsePrice (11790 / 10000) = 117900000 \<and>
   toScaled SPREAD_MARKUP = 100000"
  by (simp add: getExecutionPrice_demo parsePrice_def toScaled_def Math_round_def SCALE_def
      SPREAD_MARKUP_def)

section \<open>The example store, evaluated\<close>

lemma validatePair_EUR_USDT: "validatePair ''EUR'' ''USDT'' = Inr ()"
  unfolding validatePair_def Let_def by (simp add: SUPPORTED_PAIRS_def)

lemma scaledMultiply_demo: "scaledMultiply 10000000000 117920000 = 11792000000"
  by (simp add: scaledMultiply_def bigint_div_def Number_of_BigInt_def SCALE_def)

lemma createQuote_demo:
  "fst (createQuote seeded demoFeed ''demo-account'' ''EUR'' ''USDT'' BUY 100 0 ''q-1'') = quoted"
  unfolding createQuote_def Let_def
  by (simp add: getExecutionPrice_demo validatePair_EUR_USDT scaledMultiply_demo toScaled_def Math_round_def SCALE_def
      QUOTE_TTL_MS_def quoted_def demoQuote_def seeded_def)

lemma executeRfqTrade_demo_expired:
  "executeRfqTrade quoted ''demo-account'' ''q-1'' 31000 31001 ''t-1'' =
     (update_quote_status quoted ''q-1'' EXPIRED, Inl quoteExpired)"
  by (simp add: executeRfqTrade_def executeRfqTrade_resume_def selectQuote_def quoted_def
      demoQuote_def)

lemma executeRfqTrade_demo_ok:
  "isSuccess (snd (executeRfqTrade quoted ''demo-account'' ''q-1'' 1000 1001 ''t-1''))"
  "trades (fst (executeRfqTrade quoted ''demo-account'' ''q-1'' 1000 1001 ''t-1'')) = [demoTrade ''t-1'' 1001]"
  "quotes (fst (executeRfqTrade quoted ''demo-account'' ''q-1'' 1000 1001 ''t-1'')) ''q-1'' = Some (demoQuote\<lparr>q_status := EXECUTED\<rparr>)"
  "getBalance (fst (executeRfqTrade quoted ''demo-account'' ''q-1'' 1000 1001 ''t-1'')) ''demo-account'' ''USDT'' = 988208000000"
  "getBalance (fst (executeRfqTrade quoted ''demo-account'' ''q-1'' 1000 1001 ''t-1'')) ''demo-account'' ''EUR'' = 510000000000"
  unfolding executeRfqTrade_def executeRfqTrade_resume_def selectQuote_def executeTrade_def
    executeTradeTx_def executeTradeTx_body_def transaction_def Let_def
  by (simp_all add: quoted_def demoQuote_def scaledMultiply_demo debit_def debit_update_def
      seeded_def credit_def update_quote_status_def isSuccess_def demoTrade_def getBalance_def)

section \<open>Quotes along a run of operations\<close>

lemma status_move_ok_refl [simp]: "status_move_ok st st"
  by (simp add: status_move_ok_def)

lemma status_move_ok_trans:
  "status_move_ok a b \<Longrightarrow> status_move_ok b c \<Longrightarrow> status_move_ok a c"
  by (auto simp: status_move_ok_def)

lemma status_move_ok_terminal: "status_move_ok a b \<Longrightarrow> a \<noteq> OPEN \<Longrightarrow> b = a"
  by (auto simp: status_move_ok_def)

lemma status_not_terminal: "st \<noteq> EXECUTED \<Longrightarrow> st \<noteq> EXPIRED \<Longrightarrow> st = OPEN"
  by (cases st) auto

text \<open>What one statement does to the table of quotes.\<close>

lemma createQuote_quotes:
  "fst (createQuote s feed a b q side amount now quoteId) = s \<or>
   (quotes s quoteId = None \<and>
    (\<exists>row. fst (createQuote s feed a b q side amount now quoteId) = s\<lparr>quotes := (quotes s)(quoteId \<mapsto> row)\<rparr> \<and>
           q_status row = OPEN \<and>
           q_quoteAmount row = scaledMultiply (q_baseAmount row) (q_price row)))"
  unfolding createQuote_def Let_def
  by (auto split: sum.splits prod.splits)

lemma getQuote_state:
  "fst (getQuote s a quoteId now) = s \<or>
   (\<exists>row. quotes s quoteId = Some row \<and> q_status row = OPEN \<and>
          fst (getQuote s a quoteId now) = update_quote_status s quoteId EXPIRED)"
  unfolding getQuote_def getQuote_resume_def selectQuote_def Let_def
  by (auto split: option.splits)

lemma executeTradeTx_body_ok:
  assumes "executeTradeTx_body a b q side ba qa price ty qid tid now s = (s', Inr u)"
  shows "\<exists>s1 s2 s3.
           debit s a (fst (debitLeg b q side ba qa)) (snd (debitLeg b q side ba qa)) = (s1, Inr ()) \<and>
           s2 = credit s1 a (fst (creditLeg b q side ba qa)) (snd (creditLeg b q side ba qa)) \<and>
           s3 = (case qid of None \<Rightarrow> s2
                 | Some i \<Rightarrow> if i \<noteq> [] then update_quote_status s2 i EXECUTED else s2) \<and>
           tid \<notin> t_id ` set (trades s3) \<and>
           s' = s3\<lparr>trades := trades s3 @
                  [\<lparr>t_id = tid, t_accountId = a, t_quoteId = qid, t_type = ty,
                    t_baseCurrency = b, t_quoteCurrency = q, t_side = side,
                    t_baseAmount = ba, t_quoteAmount = qa, t_price = price,
                    t_executedAt = now, t_createdAt = now\<rparr>]\<rparr>"
proof -
  define dc where "dc = (if side = BUY then q else b)"
  define da where "da = (if side = BUY then qa else ba)"
  define cc where "cc = (if side = BUY then b else q)"
  define ca where "ca = (if side = BUY then ba else qa)"
  define s3 where "s3 = (\<lambda>s1. case qid of None \<Rightarrow> credit s1 a cc ca
                 | Some i \<Rightarrow> if i \<noteq> [] then update_quote_status (credit s1 a cc ca) i EXECUTED
                             else credit s1 a cc ca)"
  have legs: "debitLeg b q side ba qa = (dc, da)" "creditLeg b q side ba qa = (cc, ca)"
    by (simp_all add: debitLeg_def creditLeg_def dc_def da_def cc_def ca_def)
  obtain s1 r where d: "debit s a dc da = (s1, r)"
    by (cases "debit s a dc da") auto
  have body: "executeTradeTx_body a b q side ba qa price ty qid tid now s =
      (case debit s a dc da of
           (s1, Inl e) \<Rightarrow> (s1, Inl e)
         | (s1, Inr _) \<Rightarrow>
             if tid \<in> t_id ` set (trades (s3 s1))
             then (s3 s1, Inl (SqliteConstraint ''UNIQUE constraint failed: trades.id''))
             else ((s3 s1)\<lparr>trades := trades (s3 s1) @
                        [\<lparr>t_id = tid, t_accountId = a, t_quoteId = qid, t_type = ty,
                          t_baseCurrency = b, t_quoteCurrency = q, t_side = side,
                          t_baseAmount = ba, t_quoteAmount = qa, t_price = price,
                          t_executedAt = now, t_createdAt = now\<rparr>]\<rparr>, Inr ()))"
    unfolding executeTradeTx_body_def Let_def dc_def da_def cc_def ca_def s3_def ..
  from assms have r: "r = Inr ()"
    unfolding body d by (cases r) (auto split: if_splits)
  from assms have fresh: "tid \<notin> t_id ` set (trades (s3 s1))"
    unfolding body d r by (auto split: if_splits)
  from assms have s': "s' = (s3 s1)\<lparr>trades := trades (s3 s1) @
                        [\<lparr>t_id = tid, t_accountId = a, t_quoteId = qid, t_type = ty,
                          t_baseCurrency = b, t_quoteCurrency = q, t_side = side,
                          t_baseAmount = ba, t_quoteAmount = qa, t_price = price,
                          t_executedAt = now, t_createdAt = now\<rparr>]\<rparr>"
    unfolding body d r using fresh by simp
  show ?thesis
    unfolding legs fst_conv snd_conv
    using d r fresh s' unfolding s3_def by blast
qed

lemma debit_quotes_trades:
  "debit s a c amount = (s', r) \<Longrightarrow> quotes s' = quotes s \<and> trades s' = trades s"
  by (auto simp: debit_def debit_update_def split: option.splits if_splits)

lemma credit_quotes_trades [simp]:
  "quotes (credit s a c amount) = quotes s" "trades (credit s a c amount) = trades s"
  by (simp_all add: credit_def split: option.splits)

lemma update_quote_status_quotes:
  "quotes (update_quote_status s qid st) =
     (case quotes s qid of None \<Rightarrow> quotes s | Some row \<Rightarrow> (quotes s)(qid \<mapsto> row\<lparr>q_status := st\<rparr>))"
  by (simp add: update_quote_status_def split: option.splits)

text \<open>A successful commit: the row it appends and what it does to the quotes.\<close>

lemma executeTrade_ok:
  assumes "executeTrade s a b q side ba price ty qid now tid = (s', Inr resp)"
  shows "trades s' = trades s @
           [\<lparr>t_id = tid, t_accountId = a, t_quoteId = qid, t_type = ty,
             t_baseCurrency = b, t_quoteCurrency = q, t_side = side,
             t_baseAmount = ba, t_quoteAmount = scaledMultiply ba price, t_price = price,
             t_executedAt = now, t_createdAt = now\<rparr>]"
    and "quotes s' = (case qid of None \<Rightarrow> quotes s
                      | Some i \<Rightarrow> if i \<noteq> [] then quotes (update_quote_status s i EXECUTED)
                                  else quotes s)"
proof -
  from assms obtain u where tx:
    "executeTradeTx s a b q side ba (scaledMultiply ba price) price ty qid tid now = (s', Inr u)"
    unfolding executeTrade_def Let_def by (auto split: prod.splits sum.splits)
  then have body:
    "executeTradeTx_body a b q side ba (scaledMultiply ba price) price ty qid tid now s = (s', Inr u)"
    unfolding executeTradeTx_def by (rule transaction_ok)
  from executeTradeTx_body_ok [OF body] obtain s1 s2 s3 where
    d: "debit s a (fst (debitLeg b q side ba (scaledMultiply ba price)))
          (snd (debitLeg b q side ba (scaledMultiply ba price))) = (s1, Inr ())"
    and s2: "s2 = credit s1 a (fst (creditLeg b q side ba (scaledMultiply ba price)))
          (snd (creditLeg b q side ba (scaledMultiply ba price)))"
    and s3: "s3 = (case qid of None \<Rightarrow> s2
                 | Some i \<Rightarrow> if i \<noteq> [] then update_quote_status s2 i EXECUTED else s2)"
    and s': "s' = s3\<lparr>trades := trades s3 @
                  [\<lparr>t_id = tid, t_accountId = a, t_quoteId = qid, t_type = ty,
                    t_baseCurrency = b, t_quoteCurrency = q, t_side = side,
                    t_baseAmount = ba, t_quoteAmount = scaledMultiply ba price, t_price = price,
                    t_executedAt = now, t_createdAt = now\<rparr>]\<rparr>"
    by blast
  have q1: "quotes s1 = quotes s" and t1: "trades s1 = trades s"
    using debit_quotes_trades [OF d] by simp_all
  have t3: "trades s3 = trades s"
    using s3 s2 t1 by (simp split: option.splits)
  show "trades s' = trades s @
           [\<lparr>t_id = tid, t_accountId = a, t_quoteId = qid, t_type = ty,
             t_baseCurrency = b, t_quoteCurrency = q, t_side = side,
             t_baseAmount = ba, t_quoteAmount = scaledMultiply ba price, t_price = price,
             t_executedAt = now, t_createdAt = now\<rparr>]"
    using s' t3 by simp
  have "quotes s3 = (case qid of None \<Rightarrow> quotes s
                      | Some i \<Rightarrow> if i \<noteq> [] then quotes (update_quote_status s i EXECUTED)
                                  else quotes s)"
    using s3 s2 q1 by (simp add: update_quote_status_quotes split: option.splits)
  then show "quotes s' = (case qid of None \<Rightarrow> quotes s
                      | Some i \<Rightarrow> if i \<noteq> [] then quotes (update_quote_status s i EXECUTED)
                                  else quotes s)"
    using s' by simp
qed

lemma executeRfqTrade_state:
  "fst (executeRfqTrade s a quoteId nowCheck now tid) = s \<or>
   (\<exists>row. quotes s quoteId = Some row \<and> q_status row = OPEN \<and>
      (fst (executeRfqTrade s a quoteId nowCheck now tid) = update_quote_status s quoteId EXPIRED \<or>
       quotes (fst (executeRfqTrade s a quoteId nowCheck now tid)) = quotes s \<or>
       quotes (fst (executeRfqTrade s a quoteId nowCheck now tid))
         = quotes (update_quote_status s quoteId EXECUTED)))"
proof (cases "quotes s quoteId")
  case None
  then show ?thesis
    by (simp add: executeRfqTrade_def executeRfqTrade_resume_def selectQuote_def)
next
  case (Some row)
  show ?thesis
  proof (cases "q_accountId row \<noteq> a \<or> q_status row = EXECUTED")
    case True
    with Some show ?thesis
      by (auto simp: executeRfqTrade_def executeRfqTrade_resume_def selectQuote_def)
  next
    case live: False
    show ?thesis
    proof (cases "q_status row = EXPIRED \<or> q_expiresAt row < nowCheck")
      case True
      have "q_status row \<noteq> EXPIRED \<Longrightarrow> q_status row = OPEN"
        using live by (cases "q_status row") auto
      with True Some live show ?thesis
        by (auto simp: executeRfqTrade_def executeRfqTrade_resume_def selectQuote_def)
    next
      case False
      with live have op: "q_status row = OPEN"
        by (cases "q_status row") auto
      define call where "call = executeTrade s a (q_baseCurrency row) (q_quoteCurrency row)
         (q_side row) (q_baseAmount row) (q_price row) RFQ (Some quoteId) now tid"
      have eq: "executeRfqTrade s a quoteId nowCheck now tid = call"
        using Some live False
        by (simp add: executeRfqTrade_def executeRfqTrade_resume_def selectQuote_def call_def)
      obtain s' r where c: "call = (s', r)" by (cases call) auto
      show ?thesis
      proof (cases r)
        case (Inl e)
        with c have "s' = s" unfolding call_def by (auto dest: executeTrade_fail)
        with eq c show ?thesis by simp
      next
        case (Inr resp)
        with c have "quotes s' = (if quoteId \<noteq> [] then quotes (update_quote_status s quoteId EXECUTED)
                                else quotes s)"
          unfolding call_def using executeTrade_ok(2) by fastforce
        with eq c Some op show ?thesis by auto
      qed
    qed
  qed
qed

lemma executeMarketTrade_quotes:
  "quotes (fst (executeMarketTrade s feed a b q side amount now tid)) = quotes s"
proof -
  have "\<And>price. quotes (fst (executeTrade s a b q side (toScaled amount) price MARKET None now tid))
        = quotes s"
  proof -
    fix price
    obtain s' r where c: "executeTrade s a b q side (toScaled amount) price MARKET None now tid = (s', r)"
      by (cases "executeTrade s a b q side (toScaled amount) price MARKET None now tid") auto
    show "quotes (fst (executeTrade s a b q side (toScaled amount) price MARKET None now tid)) = quotes s"
    proof (cases r)
      case (Inl e)
      with c have "s' = s" by (auto dest: executeTrade_fail)
      with c show ?thesis by simp
    next
      case (Inr resp)
      with c have "quotes s' = quotes s" using executeTrade_ok(2) by fastforce
      with c show ?thesis by simp
    qed
  qed
  then show ?thesis
    unfolding executeMarketTrade_def Let_def by (auto split: sum.splits)
qed

text \<open>
  One operation, seen from a quote: a row that exists stays, with at most its status
  moved out of \<open>OPEN\<close>; a row that appears is an \<open>OPEN\<close> quote whose quote amount is
  \<open>scaledMultiply\<close> of its base amount and price.
\<close>

lemma apply_operation_old_quote:
  assumes "quotes s qid = Some row"
  shows "\<exists>st. quotes (apply_operation s op) qid = Some (row\<lparr>q_status := st\<rparr>) \<and>
              status_move_ok (q_status row) st"
proof -
  have keep: "quotes s' qid = quotes s qid \<Longrightarrow>
      \<exists>st. quotes s' qid = Some (row\<lparr>q_status := st\<rparr>) \<and> status_move_ok (q_status row) st"
    for s' :: db
    using assms by (intro exI [of _ "q_status row"]) simp
  have move: "quotes s i = Some r \<Longrightarrow> q_status r = OPEN \<Longrightarrow> st' = EXECUTED \<or> st' = EXPIRED \<Longrightarrow>
      quotes s' = quotes (update_quote_status s i st') \<Longrightarrow>
      \<exists>st. quotes s' qid = Some (row\<lparr>q_status := st\<rparr>) \<and> status_move_ok (q_status row) st"
    for s' :: db and i r st'
    using assms
    by (cases "i = qid")
       (auto simp: update_quote_status_quotes status_move_ok_def intro: exI [of _ "q_status row"])
  show ?thesis
  proof (cases op)
    case (CreateQuote feed a b q side amount now quoteId)
    from createQuote_quotes [of s feed a b q side amount now quoteId] assms
    have "quotes (fst (createQuote s feed a b q side amount now quoteId)) qid = quotes s qid"
      by auto
    with CreateQuote show ?thesis
      using keep [of "apply_operation s op"] by simp
  next
    case (GetQuote a quoteId now)
    from getQuote_state [of s a quoteId now]
    consider "fst (getQuote s a quoteId now) = s"
      | r where "quotes s quoteId = Some r" "q_status r = OPEN"
          "fst (getQuote s a quoteId now) = update_quote_status s quoteId EXPIRED"
      by blast
    then show ?thesis
    proof cases
      case 1
      with GetQuote show ?thesis using keep [of "apply_operation s op"] by simp
    next
      case 2
      with GetQuote show ?thesis
        using move [of quoteId r EXPIRED "apply_operation s op"] by simp
    qed
  next
    case (ExecuteRfqTrade a quoteId nowCheck now tid)
    from executeRfqTrade_state [of s a quoteId nowCheck now tid]
    consider "fst (executeRfqTrade s a quoteId nowCheck now tid) = s"
      | r where "quotes s quoteId = Some r" "q_status r = OPEN"
          "fst (executeRfqTrade s a quoteId nowCheck now tid) = update_quote_status s quoteId EXPIRED"
      | r where "quotes s quoteId = Some r" "q_status r = OPEN"
          "quotes (fst (executeRfqTrade s a quoteId nowCheck now tid)) = quotes s"
      | r where "quotes s quoteId = Some r" "q_status r = OPEN"
          "quotes (fst (executeRfqTrade s a quoteId nowCheck now tid))
             = quotes (update_quote_status s quoteId EXECUTED)"
      by blast
    then show ?thesis
    proof cases
      case 1
      with ExecuteRfqTrade show ?thesis using keep [of "apply_operation s op"] by simp
    next
      case 2
      with ExecuteRfqTrade show ?thesis
        using move [of quoteId r EXPIRED "apply_operation s op"] by simp
    next
      case 3
      with ExecuteRfqTrade show ?thesis using keep [of "apply_operation s op"] by simp
    next
      case 4
      with ExecuteRfqTrade show ?thesis
        using move [of quoteId r EXECUTED "apply_operation s op"] by simp
    qed
  next
    case (ExecuteMarketTrade feed a b q side amount now tid)
    with executeMarketTrade_quotes [of s feed a b q side amount now tid] show ?thesis
      using keep [of "apply_operation s op"] by simp
  qed
qed

lemma apply_operation_new_quote:
  assumes "quotes s qid = None" "quotes (apply_operation s op) qid = Some row"
  shows "q_quoteAmount row = scaledMultiply (q_baseAmount row) (q_price row)"
proof (cases op)
  case (CreateQuote feed a b q side amount now quoteId)
  with createQuote_quotes [of s feed a b q side amount now quoteId] assms show ?thesis
    by (auto split: if_splits)
next
  case (GetQuote a quoteId now)
  with getQuote_state [of s a quoteId now] assms show ?thesis
    by (auto simp: update_quote_status_quotes split: if_splits)
next
  case (ExecuteRfqTrade a quoteId nowCheck now tid)
  with executeRfqTrade_state [of s a quoteId nowCheck now tid] assms show ?thesis
    by (auto simp: update_quote_status_quotes split: if_splits)
next
  case (ExecuteMarketTrade feed a b q side amount now tid)
  with executeMarketTrade_quotes [of s feed a b q side amount now tid] assms show ?thesis
    by auto
qed

lemma run_operations_Nil [simp]: "run_operations s [] = s"
  by (simp add: run_operations_def)

lemma run_operations_Cons [simp]:
  "run_operations s (op # ops) = run_operations (apply_operation s op) ops"
  by (simp add: run_operations_def)

lemma run_operations_old_quote:
  "quotes s qid = Some row \<Longrightarrow>
     \<exists>st. quotes (run_operations s ops) qid = Some (row\<lparr>q_status := st\<rparr>) \<and>
          status_move_ok (q_status row) st"
proof (induction ops arbitrary: s row)
  case Nil
  then show ?case by (intro exI [of _ "q_status row"]) simp
next
  case (Cons op ops)
  from apply_operation_old_quote [OF Cons.prems, of op] obtain st1 where
    s1: "quotes (apply_operation s op) qid = Some (row\<lparr>q_status := st1\<rparr>)"
    and m1: "status_move_ok (q_status row) st1" by blast
  from Cons.IH [OF s1] obtain st2 where
    s2: "quotes (run_operations (apply_operation s op) ops) qid
           = Some (row\<lparr>q_status := st1, q_status := st2\<rparr>)"
    and m2: "status_move_ok st1 st2" by auto
  from m1 m2 have "status_move_ok (q_status row) st2" by (rule status_move_ok_trans)
  with s2 show ?case by auto
qed

lemma run_operations_consistent:
  assumes "\<And>qid row. quotes s qid = Some row \<Longrightarrow>
             q_quoteAmount row = scaledMultiply (q_baseAmount row) (q_price row)"
    and "quotes (run_operations s ops) qid = Some row"
  shows "q_quoteAmount row = scaledMultiply (q_baseAmount row) (q_price row)"
  using assms
proof (induction ops arbitrary: s)
  case Nil
  then show ?case by simp
next
  case (Cons op ops)
  have "q_quoteAmount r = scaledMultiply (q_baseAmount r) (q_price r)"
    if r: "quotes (apply_operation s op) i = Some r" for i r
  proof (cases "quotes s i")
    case None
    from apply_operation_new_quote [OF None r] show ?thesis .
  next
    case (Some r0)
    from apply_operation_old_quote [OF Some, of op] r obtain st where "r = r0\<lparr>q_status := st\<rparr>"
      by auto
    with Cons.prems(1) [OF Some] show ?thesis by simp
  qed
  from Cons.IH [OF this] Cons.prems(2) show ?case by simp
qed

text \<open>
  Calls that do not overlap: along any sequence of \<open>createQuote\<close>, \<open>getQuote\<close>,
  \<open>executeRfqTrade\<close> and \<open>executeMarketTrade\<close> calls, each run to its end before the
  next, a quote that exists keeps existing and its status either stays or has left
  \<open>OPEN\<close> for \<open>EXECUTED\<close> or \<open>EXPIRED\<close>; a status other than \<open>OPEN\<close> never changes.
\<close>

theorem quote_status_one_way:
  assumes "quotes s quoteId = Some row"
  shows "\<exists>row'. quotes (run_operations s ops) quoteId = Some row' \<and>
           status_move_ok (q_status row) (q_status row') \<and>
           (q_status row \<noteq> OPEN \<longrightarrow> q_status row' = q_status row)"
proof -
  from run_operations_old_quote [OF assms, of ops] obtain st where
    "quotes (run_operations s ops) quoteId = Some (row\<lparr>q_status := st\<rparr>)"
    "status_move_ok (q_status row) st" by blast
  then show ?thesis
    by (auto dest: status_move_ok_terminal)
qed

lemma executeRfqTrade_ok:
  assumes "executeRfqTrade s a quoteId nowCheck now tid = (s', Inr resp)"
  shows "\<exists>row. quotes s quoteId = Some row \<and> q_accountId row = a \<and> q_status row = OPEN \<and>
           nowCheck \<le> q_expiresAt row \<and>
           executeTrade s a (q_baseCurrency row) (q_quoteCurrency row) (q_side row)
             (q_baseAmount row) (q_price row) RFQ (Some quoteId) now tid = (s', Inr resp)"
proof (cases "quotes s quoteId")
  case None
  with assms show ?thesis
    by (simp add: executeRfqTrade_def executeRfqTrade_resume_def selectQuote_def)
next
  case (Some row)
  with assms have "q_accountId row = a" "q_status row \<noteq> EXECUTED" "q_status row \<noteq> EXPIRED"
    "\<not> q_expiresAt row < nowCheck"
    by (auto simp: executeRfqTrade_def executeRfqTrade_resume_def selectQuote_def
        split: if_splits)
  moreover from this have "q_status row = OPEN" by (simp add: status_not_terminal)
  ultimately show ?thesis
    using Some assms
    by (simp add: executeRfqTrade_def executeRfqTrade_resume_def selectQuote_def)
qed

text \<open>
  C6. Every quote in the store was written by \<open>createQuote\<close> (the run starts without
  quotes). Then a successful \<open>executeRfqTrade\<close> appends one trade row that refers to the
  quote and whose base amount, quote amount and price are those stored on the quote.
  \<open>executeTrade\<close> computes the quote amount again, with the function and the arguments
  \<open>createQuote\<close> used, so the two agree.
\<close>

theorem rfq_trade_carries_quote:
  assumes "quotes s0 = Map.empty"
    and "s = run_operations s0 ops"
    and "quotes s quoteId = Some row"
    and "executeRfqTrade s accountId quoteId nowCheck now tradeId = (s', Inr resp)"
  shows "\<exists>t. trades s' = trades s @ [t] \<and> t_id t = tradeId \<and> t_quoteId t = Some quoteId \<and>
           t_type t = RFQ \<and>
           t_baseAmount t = q_baseAmount row \<and>
           t_quoteAmount t = q_quoteAmount row \<and>
           t_price t = q_price row"
proof -
  have cons: "q_quoteAmount row = scaledMultiply (q_baseAmount row) (q_price row)"
  proof (rule run_operations_consistent [of s0 ops quoteId row])
    show "quotes (run_operations s0 ops) quoteId = Some row"
      using assms(2,3) by simp
  qed (simp add: assms(1))
  from executeRfqTrade_ok [OF assms(4)] assms(3) have
    "executeTrade s accountId (q_baseCurrency row) (q_quoteCurrency row) (q_side row)
       (q_baseAmount row) (q_price row) RFQ (Some quoteId) now tradeId = (s', Inr resp)"
    by auto
  from executeTrade_ok(1) [OF this] cons show ?thesis by simp
qed

section \<open>The results at the example store\<close>

lemma isSuccess_Inr: "isSuccess r \<Longrightarrow> r = Inr (projr r)"
  by (cases r) (simp_all add: isSuccess_def)

lemma executeRfqTrade_demo_pair:
  "executeRfqTrade quoted ''demo-account'' ''q-1'' 1000 1001 ''t-1'' =
     (fst (executeRfqTrade quoted ''demo-account'' ''q-1'' 1000 1001 ''t-1''),
      Inr (projr (snd (executeRfqTrade quoted ''demo-account'' ''q-1'' 1000 1001 ''t-1''))))"
  using isSuccess_Inr [OF executeRfqTrade_demo_ok(1)]
  by (metis prod.collapse)

theorem executeRfqTrade_rejection_leaves_ledger_witness:
  "executeRfqTrade quoted ''demo-account'' ''q-1'' 31000 31001 ''t-1'' =
     (update_quote_status quoted ''q-1'' EXPIRED, Inl quoteExpired) \<and>
   balances (update_quote_status quoted ''q-1'' EXPIRED) = balances quoted \<and>
   trades (update_quote_status quoted ''q-1'' EXPIRED) = trades quoted \<and>
   quotes quoted ''q-1'' = Some demoQuote \<and> q_status demoQuote = OPEN \<and>
   quotes (update_quote_status quoted ''q-1'' EXPIRED) ''q-1'' = Some (demoQuote\<lparr>q_status := EXPIRED\<rparr>)"
proof -
  have q: "quotes quoted ''q-1'' = Some demoQuote" by (simp add: quoted_def)
  have st: "q_status demoQuote = OPEN" by (simp add: demoQuote_def)
  have q': "quotes (update_quote_status quoted ''q-1'' EXPIRED) ''q-1''
              = Some (demoQuote\<lparr>q_status := EXPIRED\<rparr>)"
    by (simp add: update_quote_status_same q)
  from executeRfqTrade_rejection_leaves_ledger [OF executeRfqTrade_demo_expired]
  show ?thesis
    using executeRfqTrade_demo_expired q st q' by simp
qed

theorem quote_status_one_way_witness:
  "quotes (run_operations quoted [ExecuteRfqTrade ''demo-account'' ''q-1'' 1000 1001 ''t-1'']) ''q-1''
     = Some (demoQuote\<lparr>q_status := EXECUTED\<rparr>) \<and>
   q_status (demoQuote\<lparr>q_status := EXECUTED\<rparr>) \<noteq> OPEN \<and>
   map_option q_status
     (quotes (run_operations
                (run_operations quoted [ExecuteRfqTrade ''demo-account'' ''q-1'' 1000 1001 ''t-1''])
                [GetQuote ''demo-account'' ''q-1'' 40000,
                 ExecuteRfqTrade ''demo-account'' ''q-1'' 50000 50001 ''t-2'']) ''q-1'')
     = Some EXECUTED"
proof -
  have s1: "quotes (run_operations quoted [ExecuteRfqTrade ''demo-account'' ''q-1'' 1000 1001 ''t-1'']) ''q-1''
     = Some (demoQuote\<lparr>q_status := EXECUTED\<rparr>)"
    by (simp add: executeRfqTrade_demo_ok)
  from quote_status_one_way [OF s1,
      of "[GetQuote ''demo-account'' ''q-1'' 40000,
           ExecuteRfqTrade ''demo-account'' ''q-1'' 50000 50001 ''t-2'']"]
  show ?thesis using s1 by auto
qed

theorem rfq_trade_carries_quote_witness:
  "quotes seeded = Map.empty \<and>
   quoted = run_operations seeded
              [CreateQuote demoFeed ''demo-account'' ''EUR'' ''USDT'' BUY 100 0 ''q-1''] \<and>
   quotes quoted ''q-1'' = Some demoQuote \<and>
   isSuccess (snd (executeRfqTrade quoted ''demo-account'' ''q-1'' 1000 1001 ''t-1'')) \<and>
   trades (fst (executeRfqTrade quoted ''demo-account'' ''q-1'' 1000 1001 ''t-1''))
     = trades quoted @ [demoTrade ''t-1'' 1001] \<and>
   t_baseAmount (demoTrade ''t-1'' 1001) = q_baseAmount demoQuote \<and>
   t_quoteAmount (demoTrade ''t-1'' 1001) = q_quoteAmount demoQuote \<and>
   t_price (demoTrade ''t-1'' 1001) = q_price demoQuote"
proof -
  have h1: "quotes seeded = Map.empty" by (simp add: seeded_def)
  have h2: "quoted = run_operations seeded
              [CreateQuote demoFeed ''demo-account'' ''EUR'' ''USDT'' BUY 100 0 ''q-1'']"
    by (simp add: createQuote_demo)
  have h3: "quotes quoted ''q-1'' = Some demoQuote" by (simp add: quoted_def)
  have h4: "trades quoted = []" by (simp add: quoted_def seeded_def)
  have h5: "t_baseAmount (demoTrade ''t-1'' 1001) = q_baseAmount demoQuote"
    "t_quoteAmount (demoTrade ''t-1'' 1001) = q_quoteAmount demoQuote"
    "t_price (demoTrade ''t-1'' 1001) = q_price demoQuote"
    by (simp_all add: demoTrade_def demoQuote_def)
  from rfq_trade_carries_quote [OF h1 h2 h3 executeRfqTrade_demo_pair]
  show ?thesis
    using h1 h3 h4 h5 executeRfqTrade_demo_ok(1,2) h2 [symmetric] by simp
qed

section \<open>Market trades on a reversed pair\<close>

lemma executeTrade_errors:
  assumes "executeTrade s a b q side ba price ty qid now tid = (s', Inl e)"
  shows "(\<exists>c. e = insufficientBalance c) \<or> (\<exists>m. e = SqliteConstraint m)"
proof -
  define qa where "qa = scaledMultiply ba price"
  from assms have tx: "executeTradeTx s a b q side ba qa price ty qid tid now = (s', Inl e)"
    unfolding executeTrade_def Let_def qa_def by (auto split: prod.splits sum.splits)
  obtain s1 r where body: "executeTradeTx_body a b q side ba qa price ty qid tid now s = (s1, r)"
    by (cases "executeTradeTx_body a b q side ba qa price ty qid tid now s") auto
  with tx have r: "r = Inl e"
    unfolding executeTradeTx_def transaction_def by (cases r) auto
  obtain s2 r2 where d: "debit s a (if side = BUY then q else b) (if side = BUY then qa else ba) = (s2, r2)"
    by (cases "debit s a (if side = BUY then q else b) (if side = BUY then qa else ba)") auto
  show ?thesis
  proof (cases r2)
    case (Inl e2)
    with d have "e2 = insufficientBalance (if side = BUY then q else b)"
      by (auto dest: debit_fail_state)
    moreover from body r d Inl have "e = e2"
      unfolding executeTradeTx_body_def Let_def by simp
    ultimately show ?thesis by blast
  next
    case (Inr u)
    with body r d show ?thesis
      unfolding executeTradeTx_body_def Let_def by (auto split: if_splits)
  qed
qed

lemma findPair_configured:
  "p \<in> set SUPPORTED_PAIRS \<Longrightarrow> findPair (base p @ quote p) = Some p \<and> findPair (quote p @ base p) = Some p"
  by (auto simp: SUPPORTED_PAIRS_def findPair_EURUSDT findPair_USDTEUR findPair_BTCUSDT
      findPair_USDTBTC)

lemma pair_found_configured:
  "p \<in> set SUPPORTED_PAIRS \<Longrightarrow>
     list_ex (\<lambda>p'. (base p' = quote p \<and> quote p' = base p) \<or> (quote p' = quote p \<and> base p' = base p))
       SUPPORTED_PAIRS"
  by (auto simp: list_ex_iff)

text \<open>
  C10. For every configured pair, \<open>executeMarketTrade\<close> called with the two currencies
  swapped passes the pair check, and \<open>findPair\<close> resolves the swapped name to the same
  pair: the price is the parsed ticker price of that pair's symbol, the one the
  configured orientation gets, not its inverse. The call then commits at that price or
  fails with the feed's or the commit's error, never with \<open>PAIR_NOT_SUPPORTED\<close>.
\<close>

theorem executeMarketTrade_reversed_pair:
  "\<forall>p \<in> set SUPPORTED_PAIRS.
     getMarketPrice feed (quote p) (base p) = getMarketPrice feed (base p) (quote p) \<and>
     getMarketPrice feed (quote p) (base p) =
       (case fetchTickerPrice feed (symbol p) of Inl e \<Rightarrow> Inl e | Inr v \<Rightarrow> Inr (parsePrice v)) \<and>
     executeMarketTrade s feed accountId (quote p) (base p) side amount now tradeId =
       (case getMarketPrice feed (base p) (quote p) of
          Inl e \<Rightarrow> (s, Inl e)
        | Inr price \<Rightarrow> executeTrade s accountId (quote p) (base p) side (toScaled amount) price
                         MARKET None now tradeId) \<and>
     (\<forall>m. snd (executeMarketTrade s feed accountId (quote p) (base p) side amount now tradeId)
            \<noteq> Inl (AppError PAIR_NOT_SUPPORTED m))"
proof
  fix p assume p: "p \<in> set SUPPORTED_PAIRS"
  have fwd: "getMarketPrice feed (base p) (quote p) =
       (case fetchTickerPrice feed (symbol p) of Inl e \<Rightarrow> Inl e | Inr v \<Rightarrow> Inr (parsePrice v))"
    using findPair_configured [OF p] by (simp add: getMarketPrice_def)
  have rev: "getMarketPrice feed (quote p) (base p) =
       (case fetchTickerPrice feed (symbol p) of Inl e \<Rightarrow> Inl e | Inr v \<Rightarrow> Inr (parsePrice v))"
    using findPair_configured [OF p] by (simp add: getMarketPrice_def)
  have ex: "executeMarketTrade s feed accountId (quote p) (base p) side amount now tradeId =
       (case getMarketPrice feed (base p) (quote p) of
          Inl e \<Rightarrow> (s, Inl e)
        | Inr price \<Rightarrow> executeTrade s accountId (quote p) (base p) side (toScaled amount) price
                         MARKET None now tradeId)"
    unfolding executeMarketTrade_def Let_def
    using pair_found_configured [OF p] by (simp add: fwd rev)
  have no: "snd (executeMarketTrade s feed accountId (quote p) (base p) side amount now tradeId)
            \<noteq> Inl (AppError PAIR_NOT_SUPPORTED m)" for m
  proof (cases "fetchTickerPrice feed (symbol p)")
    case (Inl e)
    then have "e = priceFetchFailed (''Binance ticker/price failed for '' @ symbol p @ '': ''
                 @ digits (projl (tickerPrice feed (symbol p))))"
      by (auto simp: fetchTickerPrice_def split: sum.splits)
    with Inl show ?thesis
      by (simp add: ex fwd priceFetchFailed_def)
  next
    case (Inr v)
    obtain s' r where c: "executeTrade s accountId (quote p) (base p) side (toScaled amount)
        (parsePrice v) MARKET None now tradeId = (s', r)"
      by (cases "executeTrade s accountId (quote p) (base p) side (toScaled amount)
        (parsePrice v) MARKET None now tradeId") auto
    show ?thesis
    proof (cases r)
      case (Inl e)
      with c executeTrade_errors have "(\<exists>c. e = insufficientBalance c) \<or> (\<exists>m. e = SqliteConstraint m)"
        by blast
      with Inl c Inr show ?thesis
        by (auto simp: ex fwd insufficientBalance_def)
    next
      case r: (Inr resp)
      with c Inr show ?thesis by (simp add: ex fwd)
    qed
  qed
  show "getMarketPrice feed (quote p) (base p) = getMarketPrice feed (base p) (quote p) \<and>
     getMarketPrice feed (quote p) (base p) =
       (case fetchTickerPrice feed (symbol p) of Inl e \<Rightarrow> Inl e | Inr v \<Rightarrow> Inr (parsePrice v)) \<and>
     executeMarketTrade s feed accountId (quote p) (base p) side amount now tradeId =
       (case getMarketPrice feed (base p) (quote p) of
          Inl e \<Rightarrow> (s, Inl e)
        | Inr price \<Rightarrow> executeTrade s accountId (quote p) (base p) side (toScaled amount) price
                         MARKET None now tradeId) \<and>
     (\<forall>m. snd (executeMarketTrade s feed accountId (quote p) (base p) side amount now tradeId)
            \<noteq> Inl (AppError PAIR_NOT_SUPPORTED m))"
    using fwd rev ex no by simp
qed

section \<open>The commit routine\<close>

lemma getMarketPrice_demo:
  "getMarketPrice demoFeed ''EUR'' ''USDT'' = Inr 100000001"
  "getMarketPrice demoFeed ''USDT'' ''EUR'' = Inr 100000001"
  by (simp_all add: getMarketPrice_def findPair_EURUSDT findPair_USDTEUR fetchTickerPrice_def
      demoFeed_def parsePrice_def toScaled_def Math_round_def SCALE_def)











section \<open>Repeated execution of one quote\<close>

lemma executeTrade_succeeds:
  assumes "balances s (a, fst (debitLeg b q side ba (scaledMultiply ba price))) = Some current"
    and "snd (debitLeg b q side ba (scaledMultiply ba price)) \<le> current"
    and "tid \<notin> t_id ` set (trades s)"
  shows "\<exists>s' resp. executeTrade s a b q side ba price ty qid now tid = (s', Inr resp)"
proof -
  define qa where "qa = scaledMultiply ba price"
  define dc where "dc = (if side = BUY then q else b)"
  define da where "da = (if side = BUY then qa else ba)"
  have legs: "debitLeg b q side ba qa = (dc, da)"
    by (simp add: debitLeg_def dc_def da_def)
  have d: "debit s a dc da = (s\<lparr>balances := (balances s)((a, dc) \<mapsto> current - da)\<rparr>, Inr ())"
    using assms(1,2) unfolding qa_def [symmetric] legs
    by (simp add: debit_def debit_update_def)
  have "\<exists>s'. executeTradeTx_body a b q side ba qa price ty qid tid now s = (s', Inr ())"
    unfolding executeTradeTx_body_def Let_def dc_def [symmetric] da_def [symmetric] d
    using assms(3) by (simp split: option.splits)
  then have "\<exists>s'. executeTradeTx s a b q side ba qa price ty qid tid now = (s', Inr ())"
    unfolding executeTradeTx_def transaction_def by auto
  then show ?thesis
    unfolding executeTrade_def Let_def qa_def [symmetric] by auto
qed

lemma executeRfqTrade_on_executed:
  assumes "quotes s quoteId = Some row" "q_accountId row = a" "q_status row = EXECUTED"
  shows "executeRfqTrade s a quoteId nowCheck now tid = (s, Inl quoteAlreadyExecuted)"
  using assms
  by (simp add: executeRfqTrade_def executeRfqTrade_resume_def selectQuote_def)

lemma executeRfqTrade_serial_on_executed:
  assumes "quotes s quoteId = Some row" "q_accountId row = a" "q_status row = EXECUTED"
  shows "executeRfqTrade_serial s a quoteId calls
           = (s, replicate (length calls) (Inl quoteAlreadyExecuted))"
proof (induction calls)
  case Nil
  show ?case by simp
next
  case (Cons call calls)
  obtain nowCheck now tid where call: "call = (nowCheck, now, tid)"
    by (cases call) auto
  show ?case
    unfolding call
    by (simp add: executeRfqTrade_on_executed [OF assms] Cons.IH)
qed

text \<open>
  Calls that do not overlap: for a quote that is \<open>OPEN\<close>, not past its expiry at the
  first call's check, owned by the caller, and whose paid leg the account can fund,
  \<open>N \<ge> 1\<close> calls of \<open>executeRfqTrade\<close> that run one after another give exactly one
  success, the first, and \<open>N - 1\<close> failures with \<open>QUOTE_ALREADY_EXECUTED\<close>; exactly one
  trade row, which refers to the quote, is inserted, and the quote ends \<open>EXECUTED\<close>.
\<close>

theorem executeRfqTrade_serial_once:
  assumes "quotes s quoteId = Some row"
    and "q_accountId row = accountId"
    and "q_status row = OPEN"
    and "quoteId \<noteq> []"
    and "nowCheck \<le> q_expiresAt row"
    and "tradeId \<notin> t_id ` set (trades s)"
    and "balances s (accountId,
           fst (debitLeg (q_baseCurrency row) (q_quoteCurrency row) (q_side row) (q_baseAmount row)
                  (scaledMultiply (q_baseAmount row) (q_price row)))) = Some current"
    and "snd (debitLeg (q_baseCurrency row) (q_quoteCurrency row) (q_side row) (q_baseAmount row)
                (scaledMultiply (q_baseAmount row) (q_price row))) \<le> current"
  shows "\<exists>s' resp t.
           executeRfqTrade_serial s accountId quoteId ((nowCheck, now, tradeId) # calls)
             = (s', Inr resp # replicate (length calls) (Inl quoteAlreadyExecuted)) \<and>
           trades s' = trades s @ [t] \<and> t_id t = tradeId \<and> t_quoteId t = Some quoteId \<and>
           tradesOfQuote s' quoteId = tradesOfQuote s quoteId @ [t] \<and>
           map_option q_status (quotes s' quoteId) = Some EXECUTED"
proof -
  from executeTrade_succeeds [OF assms(7,8,6)] obtain s1 resp where
    ex: "executeTrade s accountId (q_baseCurrency row) (q_quoteCurrency row) (q_side row)
           (q_baseAmount row) (q_price row) RFQ (Some quoteId) now tradeId = (s1, Inr resp)"
    by blast
  have first: "executeRfqTrade s accountId quoteId nowCheck now tradeId = (s1, Inr resp)"
    using assms(1,2,3,5) ex
    by (simp add: executeRfqTrade_def executeRfqTrade_resume_def selectQuote_def)
  define t where "t = \<lparr>t_id = tradeId, t_accountId = accountId, t_quoteId = Some quoteId,
             t_type = RFQ, t_baseCurrency = q_baseCurrency row,
             t_quoteCurrency = q_quoteCurrency row, t_side = q_side row,
             t_baseAmount = q_baseAmount row,
             t_quoteAmount = scaledMultiply (q_baseAmount row) (q_price row),
             t_price = q_price row, t_executedAt = now, t_createdAt = now\<rparr>"
  have tr: "trades s1 = trades s @ [t]"
    using executeTrade_ok(1) [OF ex] by (simp add: t_def)
  have "quotes s1 = quotes (update_quote_status s quoteId EXECUTED)"
    using executeTrade_ok(2) [OF ex] assms(4) by simp
  then have q1: "quotes s1 quoteId = Some (row\<lparr>q_status := EXECUTED\<rparr>)"
    using assms(1) by (simp add: update_quote_status_same)
  have rest: "executeRfqTrade_serial s1 accountId quoteId calls
           = (s1, replicate (length calls) (Inl quoteAlreadyExecuted))"
    by (rule executeRfqTrade_serial_on_executed [OF q1]) (simp_all add: assms(2))
  have "executeRfqTrade_serial s accountId quoteId ((nowCheck, now, tradeId) # calls)
             = (s1, Inr resp # replicate (length calls) (Inl quoteAlreadyExecuted))"
    by (simp add: first rest)
  moreover have "tradesOfQuote s1 quoteId = tradesOfQuote s quoteId @ [t]"
    by (simp add: tradesOfQuote_def tr t_def)
  moreover have "t_id t = tradeId" "t_quoteId t = Some quoteId"
    by (simp_all add: t_def)
  ultimately show ?thesis
    using tr q1 by auto
qed

section \<open>The commit, reversed-pair and repeated-execution results at the example store\<close>







theorem executeMarketTrade_reversed_pair_witness:
  "\<lparr>symbol = ''EURUSDT'', base = ''EUR'', quote = ''USDT''\<rparr> \<in> set SUPPORTED_PAIRS \<and>
   getMarketPrice demoFeed ''USDT'' ''EUR'' = getMarketPrice demoFeed ''EUR'' ''USDT'' \<and>
   getMarketPrice demoFeed ''USDT'' ''EUR'' = Inr 100000001 \<and>
   executeMarketTrade seeded demoFeed ''demo-account'' ''USDT'' ''EUR'' BUY 1 1000 ''t-1'' =
     executeTrade seeded ''demo-account'' ''USDT'' ''EUR'' BUY (toScaled 1) 100000001
       MARKET None 1000 ''t-1'' \<and>
   snd (executeMarketTrade seeded demoFeed ''demo-account'' ''USDT'' ''EUR'' BUY 1 1000 ''t-1'')
     \<noteq> Inl (pairNotSupported ''USDT_EUR'')"
proof -
  have mem: "\<lparr>symbol = ''EURUSDT'', base = ''EUR'', quote = ''USDT''\<rparr> \<in> set SUPPORTED_PAIRS"
    by (simp add: SUPPORTED_PAIRS_def)
  note at_pair = bspec [OF executeMarketTrade_reversed_pair
        [of demoFeed seeded "''demo-account''" BUY 1 1000 "''t-1''"] mem]
  have sel: "quote \<lparr>symbol = ''EURUSDT'', base = ''EUR'', quote = ''USDT''\<rparr> = ''USDT''"
    "base \<lparr>symbol = ''EURUSDT'', base = ''EUR'', quote = ''USDT''\<rparr> = ''EUR''"
    by simp_all
  from at_pair have e0:
    "executeMarketTrade seeded demoFeed ''demo-account'' ''USDT'' ''EUR'' BUY 1 1000 ''t-1'' =
       (case getMarketPrice demoFeed ''EUR'' ''USDT'' of
          Inl e \<Rightarrow> (seeded, Inl e)
        | Inr price \<Rightarrow> executeTrade seeded ''demo-account'' ''USDT'' ''EUR'' BUY (toScaled 1) price
                         MARKET None 1000 ''t-1'')"
    unfolding sel by blast
  have e: "executeMarketTrade seeded demoFeed ''demo-account'' ''USDT'' ''EUR'' BUY 1 1000 ''t-1'' =
     executeTrade seeded ''demo-account'' ''USDT'' ''EUR'' BUY (toScaled 1) 100000001
       MARKET None 1000 ''t-1''"
    unfolding e0 by (simp add: getMarketPrice_demo)
  from at_pair have n:
    "snd (executeMarketTrade seeded demoFeed ''demo-account'' ''USDT'' ''EUR'' BUY 1 1000 ''t-1'')
     \<noteq> Inl (pairNotSupported ''USDT_EUR'')"
    unfolding sel pairNotSupported_def by blast
  have p: "getMarketPrice demoFeed ''USDT'' ''EUR'' = getMarketPrice demoFeed ''EUR'' ''USDT''"
    "getMarketPrice demoFeed ''USDT'' ''EUR'' = Inr 100000001"
    by (simp_all add: getMarketPrice_demo)
  show ?thesis
    using mem e n p by blast
qed

theorem executeRfqTrade_serial_once_witness:
  "quotes quoted ''q-1'' = Some demoQuote \<and> q_accountId demoQuote = ''demo-account'' \<and>
   q_status demoQuote = OPEN \<and> ''q-1'' \<noteq> [] \<and> 1000 \<le> q_expiresAt demoQuote \<and>
   ''t-1'' \<notin> t_id ` set (trades quoted) \<and>
   balances quoted (''demo-account'', ''USDT'') = Some 1000000000000 \<and>
   scaledMultiply (q_baseAmount demoQuote) (q_price demoQuote) \<le> 1000000000000 \<and>
   map isSuccess (snd (executeRfqTrade_serial quoted ''demo-account'' ''q-1''
      [(1000, 1001, ''t-1''), (1002, 1003, ''t-2''), (40000, 40001, ''t-3'')]))
     = [True, False, False] \<and>
   length (tradesOfQuote (fst (executeRfqTrade_serial quoted ''demo-account'' ''q-1''
      [(1000, 1001, ''t-1''), (1002, 1003, ''t-2''), (40000, 40001, ''t-3'')])) ''q-1'')
     = length (tradesOfQuote quoted ''q-1'') + 1"
proof -
  have h1: "quotes quoted ''q-1'' = Some demoQuote" by (simp add: quoted_def)
  have h2: "q_accountId demoQuote = ''demo-account''" by (simp add: demoQuote_def)
  have h3: "q_status demoQuote = OPEN" by (simp add: demoQuote_def)
  have h4: "''q-1'' \<noteq> []" by simp
  have h5: "1000 \<le> q_expiresAt demoQuote" by (simp add: demoQuote_def)
  have h6: "''t-1'' \<notin> t_id ` set (trades quoted)" by (simp add: quoted_def seeded_def)
  have leg: "debitLeg (q_baseCurrency demoQuote) (q_quoteCurrency demoQuote) (q_side demoQuote)
      (q_baseAmount demoQuote) (scaledMultiply (q_baseAmount demoQuote) (q_price demoQuote))
      = (''USDT'', 11792000000)"
    by (simp add: debitLeg_def demoQuote_def scaledMultiply_demo)
  have b: "balances quoted (''demo-account'', ''USDT'') = Some 1000000000000"
    by (simp add: quoted_def seeded_def)
  have h7: "balances quoted (''demo-account'',
           fst (debitLeg (q_baseCurrency demoQuote) (q_quoteCurrency demoQuote) (q_side demoQuote)
                  (q_baseAmount demoQuote)
                  (scaledMultiply (q_baseAmount demoQuote) (q_price demoQuote))))
           = Some 1000000000000"
    unfolding leg using b by simp
  have h8: "snd (debitLeg (q_baseCurrency demoQuote) (q_quoteCurrency demoQuote) (q_side demoQuote)
                (q_baseAmount demoQuote)
                (scaledMultiply (q_baseAmount demoQuote) (q_price demoQuote))) \<le> 1000000000000"
    unfolding leg by simp
  have sm: "scaledMultiply (q_baseAmount demoQuote) (q_price demoQuote) \<le> 1000000000000"
    by (simp add: demoQuote_def scaledMultiply_demo)
  from executeRfqTrade_serial_once [OF h1 h2 h3 h4 h5 h6 h7 h8,
      of 1001 "[(1002, 1003, ''t-2''), (40000, 40001, ''t-3'')]"]
  obtain s' resp t where
    r: "executeRfqTrade_serial quoted ''demo-account'' ''q-1''
          [(1000, 1001, ''t-1''), (1002, 1003, ''t-2''), (40000, 40001, ''t-3'')]
        = (s', [Inr resp, Inl quoteAlreadyExecuted, Inl quoteAlreadyExecuted])"
    and t: "tradesOfQuote s' ''q-1'' = tradesOfQuote quoted ''q-1'' @ [t]"
    by (auto simp: numeral_2_eq_2)
  show ?thesis
    using h1 h2 h3 h5 h6 b sm
    unfolding r by (simp add: t isSuccess_def)
qed

section \<open>Calls that overlap at the read of the quote\<close>

text \<open>
  A rejection on any row, stale or not: the balances and the trades are untouched, and
  the only write is the update of the quote's status to \<open>EXPIRED\<close>, whatever the stored
  status is at that moment.
\<close>

lemma executeRfqTrade_resume_rejection:
  assumes "executeRfqTrade_resume s accountId quoteId quoteRow nowCheck now tradeId = (s', Inl e)"
    and "e = notFound ''Quote'' \<or> e = quoteAlreadyExecuted \<or> e = quoteExpired"
  shows "balances s' = balances s \<and> trades s' = trades s \<and>
         (\<forall>q. q \<noteq> quoteId \<longrightarrow> quotes s' q = quotes s q) \<and>
         (s' = s \<or> (e = quoteExpired \<and> s' = update_quote_status s quoteId EXPIRED))"
proof (cases quoteRow)
  case None
  with assms(1) show ?thesis by (simp add: executeRfqTrade_resume_def)
next
  case (Some row)
  show ?thesis
  proof (cases "q_accountId row \<noteq> accountId \<or> q_status row = EXECUTED")
    case True
    with Some assms(1) show ?thesis
      by (auto simp: executeRfqTrade_resume_def split: if_splits)
  next
    case live: False
    show ?thesis
    proof (cases "q_status row = EXPIRED \<or> q_expiresAt row < nowCheck")
      case True
      with Some live assms(1) show ?thesis
        by (auto simp: executeRfqTrade_resume_def update_quote_status_other split: if_splits)
    next
      case False
      with Some live assms(1) have
        "executeTrade s accountId (q_baseCurrency row) (q_quoteCurrency row) (q_side row)
           (q_baseAmount row) (q_price row) RFQ (Some quoteId) now tradeId = (s', Inl e)"
        by (auto simp: executeRfqTrade_resume_def split: if_splits)
      then have "s' = s" by (rule executeTrade_fail)
      then show ?thesis by simp
    qed
  qed
qed

text \<open>A commit on any row that was read carries that row's base amount and price.\<close>

lemma executeRfqTrade_resume_carries_row:
  assumes "executeRfqTrade_resume s accountId quoteId (Some row) nowCheck now tradeId
             = (s', Inr resp)"
  shows "\<exists>t. trades s' = trades s @ [t] \<and> t_quoteId t = Some quoteId \<and>
           t_baseAmount t = q_baseAmount row \<and> t_price t = q_price row \<and>
           t_quoteAmount t = scaledMultiply (q_baseAmount row) (q_price row)"
proof -
  from assms have
    "executeTrade s accountId (q_baseCurrency row) (q_quoteCurrency row) (q_side row)
       (q_baseAmount row) (q_price row) RFQ (Some quoteId) now tradeId = (s', Inr resp)"
    by (auto simp: executeRfqTrade_resume_def split: if_splits)
  from executeTrade_ok(1) [OF this] show ?thesis by simp
qed

lemma selectQuote_quoted: "selectQuote quoted ''q-1'' = Some demoQuote"
  by (simp add: selectQuote_def quoted_def)

lemma executedByFirst_eval:
  "quotes executedByFirst ''q-1'' = Some (demoQuote\<lparr>q_status := EXECUTED\<rparr>)"
  "trades executedByFirst = [demoTrade ''t-1'' 30000]"
  "getBalance executedByFirst ''demo-account'' ''USDT'' = 988208000000"
  unfolding executedByFirst_def selectQuote_quoted
  unfolding executeRfqTrade_resume_def executeTrade_def
    executeTradeTx_def executeTradeTx_body_def transaction_def Let_def
  by (simp_all add: quoted_def demoQuote_def scaledMultiply_demo debit_def debit_update_def
      seeded_def credit_def update_quote_status_def demoTrade_def getBalance_def)

lemma resume_on_stale_row:
  "executeRfqTrade_resume executedByFirst ''demo-account'' ''q-1'' (selectQuote quoted ''q-1'')
      30001 30002 ''t-2''
     = (update_quote_status executedByFirst ''q-1'' EXPIRED, Inl quoteExpired)"
  unfolding selectQuote_quoted
  by (simp add: executeRfqTrade_resume_def demoQuote_def)

lemma getQuote_resume_on_stale_row:
  "fst (getQuote_resume executedByFirst ''demo-account'' ''q-1'' (selectQuote quoted ''q-1'') 30001)
     = update_quote_status executedByFirst ''q-1'' EXPIRED"
  unfolding selectQuote_quoted getQuote_resume_def Let_def
  by (simp add: demoQuote_def)

lemma expired_after_executed:
  "quotes (update_quote_status executedByFirst ''q-1'' EXPIRED) ''q-1''
     = Some (demoQuote\<lparr>q_status := EXPIRED\<rparr>)"
  by (simp add: update_quote_status_same executedByFirst_eval(1))

lemma interleaved2_as_resumes:
  "fst (executeRfqTrade_interleaved2 quoted ''demo-account'' ''q-1''
          (30000, 30000, ''t-1'') (30001, 30002, ''t-2''))
     = update_quote_status executedByFirst ''q-1'' EXPIRED"
proof -
  obtain r where first:
    "executeRfqTrade_resume quoted ''demo-account'' ''q-1'' (selectQuote quoted ''q-1'')
       30000 30000 ''t-1'' = (executedByFirst, r)"
    unfolding executedByFirst_def by (metis prod.collapse)
  show ?thesis
    unfolding executeRfqTrade_interleaved2_def Let_def
    by (simp add: first resume_on_stale_row)
qed

text \<open>
  C3. The claim: \<open>N\<close> concurrent \<open>executeRfqTrade\<close> calls against one quote id give
  exactly one success and exactly one trade row for the quote. Two calls that overlap at
  the \<open>await\<close> of the read both find the quote \<open>OPEN\<close>; the update to \<open>EXECUTED\<close> has
  no condition on the stored status, so both commit: two successes, two trade rows for
  the one quote, and both legs moved twice.
\<close>

theorem executeRfqTrade_overlapping_double_execution:
  "isSuccess (fst (snd (executeRfqTrade_interleaved2 quoted ''demo-account'' ''q-1''
      (1000, 1001, ''t-1'') (1002, 1003, ''t-2'')))) \<and>
   isSuccess (snd (snd (executeRfqTrade_interleaved2 quoted ''demo-account'' ''q-1''
      (1000, 1001, ''t-1'') (1002, 1003, ''t-2'')))) \<and>
   tradesOfQuote (fst (executeRfqTrade_interleaved2 quoted ''demo-account'' ''q-1''
      (1000, 1001, ''t-1'') (1002, 1003, ''t-2''))) ''q-1''
     = [demoTrade ''t-1'' 1001, demoTrade ''t-2'' 1003] \<and>
   getBalance quoted ''demo-account'' ''USDT'' = 1000000000000 \<and>
   getBalance (fst (executeRfqTrade_interleaved2 quoted ''demo-account'' ''q-1''
      (1000, 1001, ''t-1'') (1002, 1003, ''t-2''))) ''demo-account'' ''USDT''
     = 1000000000000 - 2 * 11792000000 \<and>
   getBalance (fst (executeRfqTrade_interleaved2 quoted ''demo-account'' ''q-1''
      (1000, 1001, ''t-1'') (1002, 1003, ''t-2''))) ''demo-account'' ''EUR''
     = 500000000000 + 2 * 10000000000"
  unfolding executeRfqTrade_interleaved2_def executeRfqTrade_resume_def
    selectQuote_def executeTrade_def executeTradeTx_def executeTradeTx_body_def transaction_def
    Let_def
  by (simp add: quoted_def demoQuote_def scaledMultiply_demo debit_def
      debit_update_def seeded_def credit_def update_quote_status_def isSuccess_def
      tradesOfQuote_def demoTrade_def getBalance_def)

text \<open>
  C7. The claim: a call rejected with \<open>NOT_FOUND\<close>, \<open>QUOTE_ALREADY_EXECUTED\<close> or
  \<open>QUOTE_EXPIRED\<close> changes no balance and inserts no trade, and at most moves the
  rejected quote from \<open>OPEN\<close> to \<open>EXPIRED\<close>. The balances and the trades are indeed
  untouched on every row (\<open>executeRfqTrade_resume_rejection\<close>). The status is not: two
  calls read the quote while it is \<open>OPEN\<close>; the first resumes at clock 30000, the
  quote's expiry, and commits; the second resumes at 30001, is rejected with
  \<open>QUOTE_EXPIRED\<close>, and its update, which has no condition on the stored status, turns
  the quote from \<open>EXECUTED\<close> to \<open>EXPIRED\<close>, with the trade of the first call in place.
\<close>

theorem executeRfqTrade_rejection_expires_executed_quote:
  "selectQuote quoted ''q-1'' = Some demoQuote \<and> q_status demoQuote = OPEN \<and>
   q_expiresAt demoQuote = 30000 \<and>
   quotes executedByFirst ''q-1'' = Some (demoQuote\<lparr>q_status := EXECUTED\<rparr>) \<and>
   tradesOfQuote executedByFirst ''q-1'' = [demoTrade ''t-1'' 30000] \<and>
   executeRfqTrade_resume executedByFirst ''demo-account'' ''q-1'' (selectQuote quoted ''q-1'')
      30001 30002 ''t-2''
     = (update_quote_status executedByFirst ''q-1'' EXPIRED, Inl quoteExpired) \<and>
   quotes (update_quote_status executedByFirst ''q-1'' EXPIRED) ''q-1''
     = Some (demoQuote\<lparr>q_status := EXPIRED\<rparr>) \<and>
   balances (update_quote_status executedByFirst ''q-1'' EXPIRED) = balances executedByFirst \<and>
   tradesOfQuote (update_quote_status executedByFirst ''q-1'' EXPIRED) ''q-1''
     = [demoTrade ''t-1'' 30000]"
proof -
  have st: "q_status demoQuote = OPEN" "q_expiresAt demoQuote = 30000"
    by (simp_all add: demoQuote_def)
  have tr: "tradesOfQuote executedByFirst ''q-1'' = [demoTrade ''t-1'' 30000]"
    by (simp add: tradesOfQuote_def executedByFirst_eval(2) demoTrade_def)
  have tr': "tradesOfQuote (update_quote_status executedByFirst ''q-1'' EXPIRED) ''q-1''
     = [demoTrade ''t-1'' 30000]"
    using tr by (simp add: tradesOfQuote_def)
  have b: "balances (update_quote_status executedByFirst ''q-1'' EXPIRED) = balances executedByFirst"
    by simp
  show ?thesis
    using selectQuote_quoted st executedByFirst_eval(1) tr resume_on_stale_row
      expired_after_executed b tr'
    by blast
qed

text \<open>
  C8. The claim: a quote's status only moves from \<open>OPEN\<close> to \<open>EXECUTED\<close> or from
  \<open>OPEN\<close> to \<open>EXPIRED\<close>, and never leaves \<open>EXECUTED\<close> or \<open>EXPIRED\<close>. For calls that do
  not overlap this holds (\<open>quote_status_one_way\<close>). For calls that overlap at the
  \<open>await\<close> of the read it does not: after a first \<open>executeRfqTrade\<close> has committed and
  the quote is \<open>EXECUTED\<close>, a second \<open>executeRfqTrade\<close>, or a \<open>getQuote\<close>, that read
  the quote while it was \<open>OPEN\<close> and resumes past the expiry writes \<open>EXPIRED\<close>.
\<close>

theorem quote_status_leaves_EXECUTED:
  "map_option q_status (quotes quoted ''q-1'') = Some OPEN \<and>
   map_option q_status (quotes executedByFirst ''q-1'') = Some EXECUTED \<and>
   map_option q_status
     (quotes (fst (executeRfqTrade_resume executedByFirst ''demo-account'' ''q-1''
                     (selectQuote quoted ''q-1'') 30001 30002 ''t-2'')) ''q-1'') = Some EXPIRED \<and>
   map_option q_status
     (quotes (fst (getQuote_resume executedByFirst ''demo-account'' ''q-1''
                     (selectQuote quoted ''q-1'') 30001)) ''q-1'') = Some EXPIRED \<and>
   map_option q_status
     (quotes (fst (executeRfqTrade_interleaved2 quoted ''demo-account'' ''q-1''
                     (30000, 30000, ''t-1'') (30001, 30002, ''t-2''))) ''q-1'') = Some EXPIRED \<and>
   tradesOfQuote (fst (executeRfqTrade_interleaved2 quoted ''demo-account'' ''q-1''
                     (30000, 30000, ''t-1'') (30001, 30002, ''t-2''))) ''q-1''
     = [demoTrade ''t-1'' 30000]"
proof -
  have o: "map_option q_status (quotes quoted ''q-1'') = Some OPEN"
    by (simp add: quoted_def demoQuote_def)
  have e: "map_option q_status (quotes executedByFirst ''q-1'') = Some EXECUTED"
    by (simp add: executedByFirst_eval(1))
  have x: "map_option q_status (quotes (update_quote_status executedByFirst ''q-1'' EXPIRED) ''q-1'')
             = Some EXPIRED"
    by (simp add: expired_after_executed)
  have tr: "tradesOfQuote (update_quote_status executedByFirst ''q-1'' EXPIRED) ''q-1''
     = [demoTrade ''t-1'' 30000]"
    by (simp add: tradesOfQuote_def executedByFirst_eval(2) demoTrade_def)
  show ?thesis
    unfolding resume_on_stale_row getQuote_resume_on_stale_row interleaved2_as_resumes fst_conv
    using o e x tr by blast
qed

end
